theory Spec2Isabelle
  imports Complex_Main "HOL-Library.Multiset"
begin

section \<open>Python values used by the backtesting service\<close>

subsection \<open>Binary64 floating point\<close>

text \<open>
  Python's \<^verbatim>\<open>float\<close> is an IEEE binary64 number. A finite float is modelled by the real
  number it denotes, and every arithmetic operation rounds its exact result to the nearest
  representable number, ties to even. Signed zeros are not distinguished.

  \<open>rne\<close> rounds a real to the nearest integer, ties to the even one.
\<close>

definition rne :: "real \<Rightarrow> int" where
  "rne t = (let f = \<lfloor>t\<rfloor>; d = t - of_int f in
     if d < 1/2 then f else if 1/2 < d then f + 1 else if even f then f else f + 1)"

text \<open>
  \<open>ilog2 n x\<close> is the binary exponent of a positive \<open>x\<close>, found by halving or doubling at
  most \<open>n\<close> times; \<open>n = 1100\<close> covers the whole binary64 range.
\<close>

fun ilog2 :: "nat \<Rightarrow> real \<Rightarrow> int" where
  "ilog2 0 x = 0"
| "ilog2 (Suc n) x =
     (if 2 \<le> x then ilog2 n (x / 2) + 1
      else if x < 1 then ilog2 n (x * 2) - 1
      else 0)"

text \<open>
  The spacing of the binary64 numbers around \<open>x\<close>: 52 fraction bits below the leading
  bit, and the fixed spacing of the subnormal numbers below \<open>2 powi (- 1022)\<close>.
\<close>

definition ulp_exp :: "real \<Rightarrow> int" where
  "ulp_exp x = max (ilog2 1100 \<bar>x\<bar>) (- 1022) - 52"

definition ulp :: "real \<Rightarrow> real" where
  "ulp x = 2 powi ulp_exp x"

definition fl :: "real \<Rightarrow> real" where
  "fl x = (if x = 0 then 0 else of_int (rne (x / ulp x)) * ulp x)"

datatype pyfloat = Fin real | PInf | NInf | NaN

text \<open>Rounding with overflow to an infinity.\<close>

definition to_float :: "real \<Rightarrow> pyfloat" where
  "to_float x = (let y = fl x in
     if 2 ^ 1024 \<le> y then PInf else if y \<le> - (2 ^ 1024) then NInf else Fin y)"

datatype exn =
    KeyError string
  | IndexError
  | ZeroDivisionError
  | DatetimeConversionError
  | HTTPException int string
  | LibraryError string

fun f_sign :: "pyfloat \<Rightarrow> int" where
  "f_sign (Fin x) = (if x < 0 then - 1 else if 0 < x then 1 else 0)"
| "f_sign PInf = 1"
| "f_sign NInf = - 1"
| "f_sign NaN = 0"

definition f_inf :: "int \<Rightarrow> pyfloat" where
  "f_inf s = (if 0 < s then PInf else if s < 0 then NInf else NaN)"

fun f_mul :: "pyfloat \<Rightarrow> pyfloat \<Rightarrow> pyfloat" where
  "f_mul (Fin a) (Fin b) = to_float (a * b)"
| "f_mul NaN _ = NaN"
| "f_mul _ NaN = NaN"
| "f_mul a b = f_inf (f_sign a * f_sign b)"

text \<open>
  True division of two floats. Python raises \<^verbatim>\<open>ZeroDivisionError\<close> on a zero divisor.
\<close>

fun f_div :: "pyfloat \<Rightarrow> pyfloat \<Rightarrow> exn + pyfloat" where
  "f_div a (Fin b) =
     (if b = 0 then Inl ZeroDivisionError
      else case a of
          Fin x \<Rightarrow> Inr (to_float (x / b))
        | NaN \<Rightarrow> Inr NaN
        | _ \<Rightarrow> Inr (f_inf (f_sign a * f_sign (Fin b))))"
| "f_div NaN _ = Inr NaN"
| "f_div _ NaN = Inr NaN"
| "f_div (Fin x) _ = Inr (Fin 0)"
| "f_div _ _ = Inr NaN"

fun f_abs :: "pyfloat \<Rightarrow> pyfloat" where
  "f_abs (Fin x) = Fin \<bar>x\<bar>"
| "f_abs PInf = PInf"
| "f_abs NInf = PInf"
| "f_abs NaN = NaN"

text \<open>True division of two integers: the correctly rounded quotient.\<close>

definition int_truediv :: "int \<Rightarrow> int \<Rightarrow> exn + pyfloat" where
  "int_truediv a b =
     (if b = 0 then Inl ZeroDivisionError else Inr (to_float (of_int a / of_int b)))"

text \<open>\<^verbatim>\<open>int(x)\<close> on a finite float truncates towards zero.\<close>

definition py_int :: "real \<Rightarrow> int" where
  "py_int x = (if 0 \<le> x then \<lfloor>x\<rfloor> else \<lceil>x\<rceil>)"

text \<open>\<^verbatim>\<open>round(x, 6)\<close>: the float nearest to \<open>x\<close> rounded to six decimals.\<close>

definition py_round6 :: "real \<Rightarrow> real" where
  "py_round6 x = fl (of_int (rne (x * 1000000)) / 1000000)"

text \<open>Python sequence indexing: a negative index counts from the end.\<close>

definition py_index :: "'a list \<Rightarrow> int \<Rightarrow> exn + 'a" where
  "py_index xs i =
     (if 0 \<le> i \<and> i < int (length xs) then Inr (xs ! nat i)
      else if i < 0 \<and> - int (length xs) \<le> i then Inr (xs ! nat (int (length xs) + i))
      else Inl IndexError)"

subsection \<open>Decimal rendering of integers\<close>

fun digits :: "nat \<Rightarrow> string" where
  "digits n =
     (if n < 10 then [''0123456789'' ! n]
      else digits (n div 10) @ [''0123456789'' ! (n mod 10)])"

declare digits.simps [simp del]

definition str_int :: "int \<Rightarrow> string" where
  "str_int i = (if i < 0 then CHR ''-'' # digits (nat (- i)) else digits (nat i))"

subsection \<open>Exceptions as values\<close>

definition bindE :: "exn + 'a \<Rightarrow> ('a \<Rightarrow> exn + 'b) \<Rightarrow> exn + 'b" where
  "bindE m f = (case m of Inl e \<Rightarrow> Inl e | Inr x \<Rightarrow> f x)"

text \<open>
  A computation that calls into a library is a pair: the calls it made, in order, and
  the value it returned or the exception it raised.
\<close>

type_synonym ('c, 'a) eff = "'c list \<times> (exn + 'a)"

definition lift :: "exn + 'a \<Rightarrow> ('c, 'a) eff" where
  "lift r = ([], r)"

definition call :: "'c \<Rightarrow> exn + 'a \<Rightarrow> ('c, 'a) eff" where
  "call c r = ([c], r)"

definition then_do :: "('c, 'a) eff \<Rightarrow> ('a \<Rightarrow> ('c, 'b) eff) \<Rightarrow> ('c, 'b) eff" where
  "then_do m f =
     (case m of
        (cs, Inl e) \<Rightarrow> (cs, Inl e)
      | (cs, Inr x) \<Rightarrow> (case f x of (cs', r) \<Rightarrow> (cs @ cs', r)))"

section \<open>The request and the data frame\<close>

text \<open>The request schema of \<^verbatim>\<open>main.py\<close>, lines 22 to 46.\<close>

record Candle =
  timestamp :: int
  open_p :: pyfloat
  high :: pyfloat
  low :: pyfloat
  close :: pyfloat
  volume :: pyfloat

record StrategyParams =
  fast_window :: int
  slow_window :: int
  rsi_window :: int
  rsi_oversold :: int
  rsi_overbought :: int
  stop_loss_pct :: pyfloat
  take_profit_pct :: pyfloat
  strategy_type :: string
  initial_capital :: pyfloat
  commission_pct :: pyfloat

record BacktestRequest =
  candles :: "Candle list"
  strategy_params :: StrategyParams
  symbol :: string
  timeframe :: string

text \<open>
  The data frame of lines 81 to 86 has one row per candle, indexed by the candle's
  timestamp converted to a date. It is modelled by the list of its rows; the index of a
  row is its \<open>timestamp\<close> field, in milliseconds. A column with its index is a
  \<open>series\<close>.
\<close>

type_synonym dataframe = "Candle list"

type_synonym series = "(int \<times> pyfloat) list"

definition close_col :: "dataframe \<Rightarrow> series" where
  "close_col df = map (\<lambda>c. (timestamp c, close c)) df"

text \<open>
  A nanosecond date is a signed 64-bit count; \<^verbatim>\<open>pd.to_datetime(..., unit='ms')\<close> raises
  when a timestamp in milliseconds does not fit.
\<close>

definition in_datetime_range :: "int \<Rightarrow> bool" where
  "in_datetime_range ms \<longleftrightarrow>
     - 9223372036854775808 < ms * 1000000 \<and> ms * 1000000 \<le> 9223372036854775807"

text \<open>
  Lines 81 to 86. A data frame built from an empty list has no columns, so
  \<^verbatim>\<open>df['timestamp']\<close> raises \<^verbatim>\<open>KeyError\<close>. \<^verbatim>\<open>sort_index\<close> orders the rows by date; rows
  with equal dates are kept here in payload order.
\<close>

definition make_df :: "Candle list \<Rightarrow> exn + dataframe" where
  "make_df cs =
     (if cs = [] then Inl (KeyError ''timestamp'')
      else if \<not> list_all (\<lambda>c. in_datetime_range (timestamp c)) cs
        then Inl DatetimeConversionError
      else Inr (sort_key timestamp cs))"

text \<open>
  \<^verbatim>\<open>int(df.index[i].timestamp() * 1000)\<close>, lines 133, 140 and 141. The date holds
  \<open>ms * 1000000\<close> nanoseconds; \<^verbatim>\<open>Timestamp.timestamp()\<close> returns
  \<^verbatim>\<open>round(value / 1e9, 6)\<close> as a float; the product with 1000 is rounded again and
  \<^verbatim>\<open>int\<close> truncates it.
\<close>

definition Timestamp_timestamp :: "int \<Rightarrow> real" where
  "Timestamp_timestamp ms = py_round6 (fl (fl (of_int (ms * 1000000)) / 1000000000))"

definition timestamp_ms :: "int \<Rightarrow> int" where
  "timestamp_ms ms = py_int (fl (Timestamp_timestamp ms * 1000))"

section \<open>The external engine\<close>

text \<open>
  The vectorised backtesting library is not part of the repository. It is a parameter of
  the model: a record of the functions that \<^verbatim>\<open>main.py\<close> calls, each of which may raise.
  The types \<open>'ma\<close> and \<open>'rsi\<close> are the library's indicator objects.
\<close>

text \<open>One row of \<^verbatim>\<open>trades.records_arr\<close>, with the fields read at lines 139 to 155.\<close>

record trade_record =
  trade_id :: int
  direction :: int
  entry_idx :: int
  exit_idx :: int
  entry_price :: pyfloat
  exit_price :: pyfloat
  trade_size :: pyfloat
  pnl :: pyfloat
  trade_return :: pyfloat

text \<open>
  \<^verbatim>\<open>trades.win_pnl\<close> and \<^verbatim>\<open>trades.lose_pnl\<close> are used only through their reductions,
  which may raise (the maximum of an empty array does).
\<close>

record pnl_array =
  arr_mean :: "exn + pyfloat"
  arr_max :: "exn + pyfloat"
  arr_min :: "exn + pyfloat"
  arr_sum :: "exn + pyfloat"

record Trades =
  records_arr :: "trade_record list"
  win_count :: nat
  lose_count :: nat
  win_pnl :: pnl_array
  lose_pnl :: pnl_array

record Portfolio =
  stats :: "string \<rightharpoonup> pyfloat"
  trades :: Trades
  equity :: "pyfloat list"

record ('ma, 'rsi) engine =
  MA_run :: "series \<Rightarrow> int \<Rightarrow> exn + 'ma"
  ma_above :: "'ma \<Rightarrow> 'ma \<Rightarrow> exn + bool list"
  ma_below :: "'ma \<Rightarrow> 'ma \<Rightarrow> exn + bool list"
  RSI_run :: "series \<Rightarrow> int \<Rightarrow> exn + 'rsi"
  rsi_below :: "'rsi \<Rightarrow> int \<Rightarrow> exn + bool list"
  rsi_above :: "'rsi \<Rightarrow> int \<Rightarrow> exn + bool list"
  from_signals ::
    "series \<Rightarrow> bool list \<Rightarrow> bool list \<Rightarrow> pyfloat \<Rightarrow> pyfloat \<Rightarrow> pyfloat \<Rightarrow> pyfloat
      \<Rightarrow> exn + Portfolio"

text \<open>The calls into the engine, with their arguments.\<close>

datatype ('ma, 'rsi) engine_call =
    Call_MA_run series int
  | Call_ma_above 'ma 'ma
  | Call_ma_below 'ma 'ma
  | Call_RSI_run series int
  | Call_rsi_below 'rsi int
  | Call_rsi_above 'rsi int
  | Call_from_signals series "bool list" "bool list" pyfloat pyfloat pyfloat pyfloat

fun is_from_signals :: "('ma, 'rsi) engine_call \<Rightarrow> bool" where
  "is_from_signals (Call_from_signals _ _ _ _ _ _ _) = True"
| "is_from_signals _ = False"

section \<open>The response\<close>

text \<open>The handler returns a dictionary of JSON-like values.\<close>

datatype jval =
    JFloat pyfloat
  | JInt int
  | JStr string
  | JNone
  | JList "jval list"
  | JDict "(string \<times> jval) list"

type_synonym pydict = "(string \<times> jval) list"

text \<open>\<^verbatim>\<open>d[k] = v\<close> on a dictionary that keeps insertion order.\<close>

fun setitem :: "pydict \<Rightarrow> string \<Rightarrow> jval \<Rightarrow> pydict" where
  "setitem [] k v = [(k, v)]"
| "setitem ((k', v') # d) k v = (if k' = k then (k, v) # d else (k', v') # setitem d k v)"

text \<open>\<^verbatim>\<open>stats[k]\<close>: a missing label raises \<^verbatim>\<open>KeyError\<close>.\<close>

definition getitem :: "(string \<rightharpoonup> pyfloat) \<Rightarrow> string \<Rightarrow> exn + pyfloat" where
  "getitem m k = (case m k of None \<Rightarrow> Inl (KeyError k) | Some v \<Rightarrow> Inr v)"

section \<open>The two strategies\<close>

text \<open>
  Lines 129 to 135 and 214 to 220: the equity curve. Entry \<open>i\<close> pairs the date of row
  \<open>i\<close> with the engine's \<open>i\<close>-th equity value; \<^verbatim>\<open>df.index[i]\<close> raises beyond the last
  row.
\<close>

fun equity_loop :: "dataframe \<Rightarrow> nat \<Rightarrow> pyfloat list \<Rightarrow> exn + jval list" where
  "equity_loop df i [] = Inr []"
| "equity_loop df i (v # vs) =
     bindE (py_index df (int i)) (\<lambda>row.
     bindE (equity_loop df (Suc i) vs) (\<lambda>rest.
     Inr (JDict [(''timestamp'', JInt (timestamp_ms (timestamp row))),
                 (''value'', JFloat v)] # rest)))"

text \<open>Lines 139 to 155 and 224 to 240: one dictionary per trade record.\<close>

definition trade_entry :: "dataframe \<Rightarrow> trade_record \<Rightarrow> exn + jval" where
  "trade_entry df trade =
     bindE (py_index df (entry_idx trade)) (\<lambda>entry_row.
     bindE (if exit_idx trade \<noteq> - 1
            then bindE (py_index df (exit_idx trade))
                   (\<lambda>exit_row. Inr (JInt (timestamp_ms (timestamp exit_row))))
            else Inr JNone) (\<lambda>exit_time.
     Inr (JDict
       [(''id'', JStr (str_int (trade_id trade))),
        (''symbol'', JStr ''Unknown''),
        (''side'', JStr (if 0 < direction trade then ''buy'' else ''sell'')),
        (''entryTime'', JInt (timestamp_ms (timestamp entry_row))),
        (''exitTime'', exit_time),
        (''entryPrice'', JFloat (entry_price trade)),
        (''exitPrice'', if exit_price trade \<noteq> Fin 0 then JFloat (exit_price trade) else JNone),
        (''quantity'', JFloat (trade_size trade)),
        (''pnl'', JFloat (pnl trade)),
        (''pnlPercent'', JFloat (f_mul (trade_return trade) (Fin 100))),
        (''status'', JStr (if exit_idx trade \<noteq> - 1 then ''closed'' else ''open''))])))"

fun trades_loop :: "dataframe \<Rightarrow> trade_record list \<Rightarrow> exn + jval list" where
  "trades_loop df [] = Inr []"
| "trades_loop df (trade # rest) =
     bindE (trade_entry df trade) (\<lambda>d.
     bindE (trades_loop df rest) (\<lambda>ds. Inr (d # ds)))"

text \<open>Line 169 and line 254: the profit factor.\<close>

definition profit_factor_of :: "Trades \<Rightarrow> exn + pyfloat" where
  "profit_factor_of t =
     bindE (arr_sum (lose_pnl t)) (\<lambda>lose_sum.
     if lose_sum \<noteq> Fin 0
     then bindE (arr_sum (win_pnl t)) (\<lambda>win_sum.
          bindE (arr_sum (lose_pnl t)) (\<lambda>lose_sum'.
          bindE (f_div win_sum lose_sum') (\<lambda>q. Inr (f_abs q))))
     else Inr PInf)"

text \<open>
  Lines 125 to 189 of \<^verbatim>\<open>run_ma_crossover_strategy\<close> and lines 210 to 274 of
  \<^verbatim>\<open>run_rsi_strategy\<close> are the same text: everything after the portfolio is built.
\<close>

definition report :: "dataframe \<Rightarrow> Portfolio \<Rightarrow> exn + pydict" where
  "report df portfolio =
     (let st = stats portfolio; tr = trades portfolio in
      bindE (equity_loop df 0 (equity portfolio)) (\<lambda>equity_curve.
      bindE (trades_loop df (records_arr tr)) (\<lambda>trade_list.
      let winning_trades = win_count tr;
          losing_trades = lose_count tr;
          total_trades = winning_trades + losing_trades
      in
      bindE (if 0 < total_trades then int_truediv (int winning_trades) (int total_trades)
             else Inr (Fin 0)) (\<lambda>win_rate.
      bindE (if 0 < winning_trades then arr_mean (win_pnl tr) else Inr (Fin 0)) (\<lambda>avg_win.
      bindE (if 0 < losing_trades then arr_mean (lose_pnl tr) else Inr (Fin 0)) (\<lambda>avg_loss.
      bindE (if 0 < winning_trades then arr_max (win_pnl tr) else Inr (Fin 0)) (\<lambda>largest_win.
      bindE (if 0 < losing_trades then arr_min (lose_pnl tr) else Inr (Fin 0)) (\<lambda>largest_loss.
      bindE (profit_factor_of tr) (\<lambda>profit_factor.
      bindE (getitem st ''Total Return'') (\<lambda>total_return.
      bindE (getitem st ''Total Return [%]'') (\<lambda>total_return_pct.
      bindE (getitem st ''Sharpe Ratio'') (\<lambda>sharpe_ratio.
      bindE (getitem st ''Max Drawdown'') (\<lambda>max_drawdown.
      bindE (getitem st ''Max Drawdown [%]'') (\<lambda>max_drawdown_pct.
      Inr [(''total_return'', JFloat total_return),
           (''total_return_pct'', JFloat total_return_pct),
           (''sharpe_ratio'', JFloat sharpe_ratio),
           (''max_drawdown'', JFloat max_drawdown),
           (''max_drawdown_pct'', JFloat max_drawdown_pct),
           (''win_rate'', JFloat (f_mul win_rate (Fin 100))),
           (''profit_factor'', JFloat profit_factor),
           (''total_trades'', JInt (int total_trades)),
           (''winning_trades'', JInt (int winning_trades)),
           (''losing_trades'', JInt (int losing_trades)),
           (''avg_win'', JFloat avg_win),
           (''avg_loss'', JFloat avg_loss),
           (''largest_win'', JFloat largest_win),
           (''largest_loss'', JFloat largest_loss),
           (''equity_curve'', JList equity_curve),
           (''trades'', JList trade_list),
           (''execution_time'', JInt 0)]))))))))))))))"

text \<open>Lines 105 to 123.\<close>

definition run_ma_crossover_strategy ::
  "('ma, 'rsi) engine \<Rightarrow> dataframe \<Rightarrow> StrategyParams \<Rightarrow> (('ma, 'rsi) engine_call, pydict) eff"
where
  "run_ma_crossover_strategy eng df params =
     then_do (call (Call_MA_run (close_col df) (fast_window params))
                (MA_run eng (close_col df) (fast_window params))) (\<lambda>fast_ma.
     then_do (call (Call_MA_run (close_col df) (slow_window params))
                (MA_run eng (close_col df) (slow_window params))) (\<lambda>slow_ma.
     then_do (call (Call_ma_above fast_ma slow_ma) (ma_above eng fast_ma slow_ma)) (\<lambda>entries.
     then_do (call (Call_ma_below fast_ma slow_ma) (ma_below eng fast_ma slow_ma)) (\<lambda>exits.
     then_do (call (Call_from_signals (close_col df) entries exits
                      (initial_capital params) (commission_pct params)
                      (stop_loss_pct params) (take_profit_pct params))
                (from_signals eng (close_col df) entries exits
                      (initial_capital params) (commission_pct params)
                      (stop_loss_pct params) (take_profit_pct params))) (\<lambda>portfolio.
     lift (report df portfolio))))))"

text \<open>Lines 191 to 208.\<close>

definition run_rsi_strategy ::
  "('ma, 'rsi) engine \<Rightarrow> dataframe \<Rightarrow> StrategyParams \<Rightarrow> (('ma, 'rsi) engine_call, pydict) eff"
where
  "run_rsi_strategy eng df params =
     then_do (call (Call_RSI_run (close_col df) (rsi_window params))
                (RSI_run eng (close_col df) (rsi_window params))) (\<lambda>rsi.
     then_do (call (Call_rsi_below rsi (rsi_oversold params))
                (rsi_below eng rsi (rsi_oversold params))) (\<lambda>entries.
     then_do (call (Call_rsi_above rsi (rsi_overbought params))
                (rsi_above eng rsi (rsi_overbought params))) (\<lambda>exits.
     then_do (call (Call_from_signals (close_col df) entries exits
                      (initial_capital params) (commission_pct params)
                      (stop_loss_pct params) (take_profit_pct params))
                (from_signals eng (close_col df) entries exits
                      (initial_capital params) (commission_pct params)
                      (stop_loss_pct params) (take_profit_pct params))) (\<lambda>portfolio.
     lift (report df portfolio)))))"

subsection \<open>What the report reads from the engine\<close>

text \<open>
  What the code reads from the statistics primitives of the engine: the five labels of
  \<^verbatim>\<open>portfolio.stats()\<close>, the two trade counts, and the six reductions it calls on the two
  arrays of profit and loss.
\<close>

definition engine_statistics :: "Portfolio \<Rightarrow> (exn + pyfloat) list" where
  "engine_statistics pf =
     [getitem (stats pf) ''Total Return'', getitem (stats pf) ''Total Return [%]'',
      getitem (stats pf) ''Sharpe Ratio'', getitem (stats pf) ''Max Drawdown'',
      getitem (stats pf) ''Max Drawdown [%]'',
      Inr (Fin (real (win_count (trades pf)))), Inr (Fin (real (lose_count (trades pf)))),
      arr_mean (win_pnl (trades pf)), arr_max (win_pnl (trades pf)),
      arr_sum (win_pnl (trades pf)),
      arr_mean (lose_pnl (trades pf)), arr_min (lose_pnl (trades pf)),
      arr_sum (lose_pnl (trades pf))]"

section \<open>The endpoint\<close>

text \<open>
  What the handler takes from its runtime: the text \<^verbatim>\<open>str(e)\<close> of an exception, and the
  two readings of the clock.
\<close>

record runtime =
  str_exc :: "exn \<Rightarrow> string"
  time_start :: real
  time_end :: real

definition not_supported :: "string \<Rightarrow> string" where
  "not_supported t = ''Strategy type '' @ [CHR 0x27] @ t @ [CHR 0x27] @ '' not supported''"

text \<open>Lines 80 to 94: the body of the \<^verbatim>\<open>try\<close> block up to the strategy's result.\<close>

definition dispatch ::
  "('ma, 'rsi) engine \<Rightarrow> BacktestRequest \<Rightarrow> (('ma, 'rsi) engine_call, pydict) eff"
where
  "dispatch eng request =
     then_do (lift (make_df (candles request))) (\<lambda>df.
     if strategy_type (strategy_params request) = ''ma_crossover''
       then run_ma_crossover_strategy eng df (strategy_params request)
     else if strategy_type (strategy_params request) = ''rsi''
       then run_rsi_strategy eng df (strategy_params request)
     else lift (Inl (HTTPException 400
                  (not_supported (strategy_type (strategy_params request))))))"

text \<open>
  Lines 76 to 103. Every exception of the body, the rejection with status 400 included,
  is caught by \<^verbatim>\<open>except Exception\<close> and raised again with status 500.
\<close>

definition run_backtest ::
  "runtime \<Rightarrow> ('ma, 'rsi) engine \<Rightarrow> BacktestRequest \<Rightarrow> (('ma, 'rsi) engine_call, pydict) eff"
where
  "run_backtest rt eng request =
     (case dispatch eng request of
        (cs, Inr result) \<Rightarrow>
          (cs, Inr (setitem result ''execution_time''
                      (JFloat (to_float (time_end rt - time_start rt)))))
      | (cs, Inl e) \<Rightarrow>
          (cs, Inl (HTTPException 500 (''Backtest failed: '' @ str_exc rt e))))"

section \<open>The stress-test script\<close>

text \<open>
  \<^verbatim>\<open>stress_test_drawdown.py\<close> talks to an HTTP server. Its visible behaviour is the list of
  the effects it performs; the server is a parameter: the answer to the \<open>i\<close>-th request
  (or the exception \<^verbatim>\<open>requests.get\<close> raises), and the text of the parsed body (or the
  exception \<^verbatim>\<open>resp.json()\<close> raises).
\<close>

datatype effect =
    HttpGet string
  | HttpPost string string
  | Print string
  | Sleep real

record 'r web =
  requests_get :: "nat \<Rightarrow> string \<Rightarrow> exn + 'r"
  resp_json :: "'r \<Rightarrow> exn + string"

text \<open>Line 8 with line 15: \<^verbatim>\<open>API_URL.format(portfolio_id=portfolio_id)\<close>.\<close>

definition API_URL_format :: "string \<Rightarrow> string" where
  "API_URL_format portfolio_id =
     ''http://localhost:3000/api/portfolios/'' @ portfolio_id @ ''/risk/assessment''"

text \<open>Lines 12 to 17: the body of the loop, for each \<open>i\<close> of the range in turn.\<close>

fun poll :: "'r web \<Rightarrow> string \<Rightarrow> nat list \<Rightarrow> (effect, unit) eff" where
  "poll w portfolio_id [] = lift (Inr ())"
| "poll w portfolio_id (i # rest) =
     then_do (call (HttpGet (API_URL_format portfolio_id))
                (requests_get w i (API_URL_format portfolio_id))) (\<lambda>resp.
     then_do (lift (resp_json w resp)) (\<lambda>body.
     then_do (call (Print (''Assessment '' @ str_int (int i + 1) @ '': '' @ body)) (Inr ()))
       (\<lambda>_.
     then_do (call (Sleep (1 / 2)) (Inr ())) (\<lambda>_.
     poll w portfolio_id rest))))"

definition stress_test_drawdown :: "'r web \<Rightarrow> (effect, unit) eff" where
  "stress_test_drawdown w = poll w ''YOUR_PORTFOLIO_ID'' [0..<10]"

fun is_request :: "effect \<Rightarrow> bool" where
  "is_request (HttpGet _) = True"
| "is_request (HttpPost _ _) = True"
| "is_request _ = False"

section \<open>Sample inputs\<close>

text \<open>
  Concrete values at which the theorems below are instantiated: an engine that never
  trades, so that the equity stays at the initial cash; a portfolio with one winning and
  three losing trades; a rendering of exceptions; a server that always answers.
\<close>

definition no_trades :: Trades where
  "no_trades =
     \<lparr>records_arr = [], win_count = 0, lose_count = 0,
      win_pnl = \<lparr>arr_mean = Inr NaN, arr_max = Inl (LibraryError ''empty array''),
                 arr_min = Inl (LibraryError ''empty array''), arr_sum = Inr (Fin 0)\<rparr>,
      lose_pnl = \<lparr>arr_mean = Inr NaN, arr_max = Inl (LibraryError ''empty array''),
                  arr_min = Inl (LibraryError ''empty array''), arr_sum = Inr (Fin 0)\<rparr>\<rparr>"

definition flat_stats :: "string \<rightharpoonup> pyfloat" where
  "flat_stats =
     map_of [(''Total Return'', Fin 0), (''Total Return [%]'', Fin 0), (''Sharpe Ratio'', NaN),
             (''Max Drawdown'', Fin 0), (''Max Drawdown [%]'', Fin 0)]"

definition idle_engine :: "(series \<times> int, series \<times> int) engine" where
  "idle_engine =
     \<lparr>MA_run = (\<lambda>s w. Inr (s, w)),
      ma_above = (\<lambda>a b. Inr (map (\<lambda>_. False) (fst a))),
      ma_below = (\<lambda>a b. Inr (map (\<lambda>_. False) (fst a))),
      RSI_run = (\<lambda>s w. Inr (s, w)),
      rsi_below = (\<lambda>a t. Inr (map (\<lambda>_. False) (fst a))),
      rsi_above = (\<lambda>a t. Inr (map (\<lambda>_. False) (fst a))),
      from_signals = (\<lambda>s entries exits cash fees sl tp.
         Inr \<lparr>stats = flat_stats, trades = no_trades, equity = map (\<lambda>_. cash) s\<rparr>)\<rparr>"

definition sample_trades :: Trades where
  "sample_trades =
     \<lparr>records_arr =
        [\<lparr>trade_id = 0, direction = 0, entry_idx = 0, exit_idx = 1, entry_price = Fin 100,
          exit_price = Fin 112, trade_size = Fin 1, pnl = Fin 12, trade_return = Fin (3/25)\<rparr>],
      win_count = 1, lose_count = 3,
      win_pnl = \<lparr>arr_mean = Inr (Fin 12), arr_max = Inr (Fin 12),
                 arr_min = Inr (Fin 12), arr_sum = Inr (Fin 12)\<rparr>,
      lose_pnl = \<lparr>arr_mean = Inr (Fin (- 2)), arr_max = Inr (Fin (- 1)),
                  arr_min = Inr (Fin (- 3)), arr_sum = Inr (Fin (- 6))\<rparr>\<rparr>"

definition sample_portfolio :: Portfolio where
  "sample_portfolio =
     \<lparr>stats = flat_stats, trades = sample_trades, equity = [Fin 10000, Fin 10012]\<rparr>"

definition candle_at :: "int \<Rightarrow> real \<Rightarrow> Candle" where
  "candle_at ms px =
     \<lparr>timestamp = ms, open_p = Fin px, high = Fin px, low = Fin px, close = Fin px,
      volume = Fin 1\<rparr>"

definition default_params :: "string \<Rightarrow> StrategyParams" where
  "default_params t =
     \<lparr>fast_window = 20, slow_window = 50, rsi_window = 14, rsi_oversold = 30,
      rsi_overbought = 70, stop_loss_pct = Fin (1/50), take_profit_pct = Fin (1/25),
      strategy_type = t, initial_capital = Fin 10000, commission_pct = Fin (1/1000)\<rparr>"

definition sample_request :: "Candle list \<Rightarrow> string \<Rightarrow> BacktestRequest" where
  "sample_request cs t =
     \<lparr>candles = cs, strategy_params = default_params t, symbol = ''BTC/USDT'',
      timeframe = ''15m''\<rparr>"

fun sample_str :: "exn \<Rightarrow> string" where
  "sample_str (KeyError k) = [CHR 0x27] @ k @ [CHR 0x27]"
| "sample_str (HTTPException status detail) = str_int status @ '': '' @ detail"
| "sample_str (LibraryError m) = m"
| "sample_str _ = []"

definition sample_runtime :: runtime where
  "sample_runtime = \<lparr>str_exc = sample_str, time_start = 5, time_end = 7\<rparr>"

definition sample_web :: "string web" where
  "sample_web = \<lparr>requests_get = (\<lambda>i url. Inr ''{}''), resp_json = (\<lambda>r. Inr r)\<rparr>"

definition sample_candles :: "Candle list" where
  "sample_candles = [candle_at 2000 51, candle_at 1000 50]"

definition sample_df :: dataframe where
  "sample_df = [candle_at 1000 50, candle_at 2000 51]"

definition idle_result :: pydict where
  "idle_result =
     [(''total_return'', JFloat (Fin 0)),
      (''total_return_pct'', JFloat (Fin 0)),
      (''sharpe_ratio'', JFloat NaN),
      (''max_drawdown'', JFloat (Fin 0)),
      (''max_drawdown_pct'', JFloat (Fin 0)),
      (''win_rate'', JFloat (Fin 0)),
      (''profit_factor'', JFloat PInf),
      (''total_trades'', JInt 0),
      (''winning_trades'', JInt 0),
      (''losing_trades'', JInt 0),
      (''avg_win'', JFloat (Fin 0)),
      (''avg_loss'', JFloat (Fin 0)),
      (''largest_win'', JFloat (Fin 0)),
      (''largest_loss'', JFloat (Fin 0)),
      (''equity_curve'', JList
         [JDict [(''timestamp'', JInt 1000), (''value'', JFloat (Fin 10000))],
          JDict [(''timestamp'', JInt 2000), (''value'', JFloat (Fin 10000))]]),
      (''trades'', JList []),
      (''execution_time'', JInt 0)]"

definition odd_ms_candles :: "Candle list" where
  "odd_ms_candles = [candle_at 1001 50]"

definition failing_engine :: "(series \<times> int, series \<times> int) engine" where
  "failing_engine =
     idle_engine\<lparr>MA_run := (\<lambda>s w. Inl (LibraryError ''bad window'')),
                 RSI_run := (\<lambda>s w. Inl (LibraryError ''bad window''))\<rparr>"

definition refusing_web :: "string web" where
  "refusing_web =
     \<lparr>requests_get = (\<lambda>i url. Inl (LibraryError ''Connection refused'')),
      resp_json = (\<lambda>r. Inr r)\<rparr>"


definition trading_engine :: "(series \<times> int, series \<times> int) engine" where
  "trading_engine =
     idle_engine\<lparr>from_signals := (\<lambda>s entries exits cash fees sl tp. Inr sample_portfolio)\<rparr>"

definition sample_report :: pydict where
  "sample_report =
     [(''total_return'', JFloat (Fin 0)),
      (''total_return_pct'', JFloat (Fin 0)),
      (''sharpe_ratio'', JFloat NaN),
      (''max_drawdown'', JFloat (Fin 0)),
      (''max_drawdown_pct'', JFloat (Fin 0)),
      (''win_rate'', JFloat (Fin 25)),
      (''profit_factor'', JFloat (Fin 2)),
      (''total_trades'', JInt 4),
      (''winning_trades'', JInt 1),
      (''losing_trades'', JInt 3),
      (''avg_win'', JFloat (Fin 12)),
      (''avg_loss'', JFloat (Fin (- 2))),
      (''largest_win'', JFloat (Fin 12)),
      (''largest_loss'', JFloat (Fin (- 3))),
      (''equity_curve'', JList
         [JDict [(''timestamp'', JInt 1000), (''value'', JFloat (Fin 10000))],
          JDict [(''timestamp'', JInt 2000), (''value'', JFloat (Fin 10012))]]),
      (''trades'', JList
         [JDict
            [(''id'', JStr ''0''),
             (''symbol'', JStr ''Unknown''),
             (''side'', JStr ''sell''),
             (''entryTime'', JInt 1000),
             (''exitTime'', JInt 2000),
             (''entryPrice'', JFloat (Fin 100)),
             (''exitPrice'', JFloat (Fin 112)),
             (''quantity'', JFloat (Fin 1)),
             (''pnl'', JFloat (Fin 12)),
             (''pnlPercent'', JFloat (Fin 12)),
             (''status'', JStr ''closed'')]]),
      (''execution_time'', JInt 0)]"

section \<open>Properties\<close>

subsection \<open>Sequencing\<close>

lemma bindE_Inr: "bindE m f = Inr y \<longleftrightarrow> (\<exists>x. m = Inr x \<and> f x = Inr y)"
  by (cases m) (simp_all add: bindE_def)

lemma bindE_Inl: "bindE m f = Inl e \<longleftrightarrow> m = Inl e \<or> (\<exists>x. m = Inr x \<and> f x = Inl e)"
  by (cases m) (simp_all add: bindE_def)

lemma then_do_Inr:
  "then_do m f = (cs, Inr y) \<longleftrightarrow>
     (\<exists>cs1 x cs2. m = (cs1, Inr x) \<and> f x = (cs2, Inr y) \<and> cs = cs1 @ cs2)"
  by (cases m; cases "snd m") (auto simp: then_do_def split: prod.splits)

lemma then_do_call:
  "then_do (call c r) f =
     (case r of Inl e \<Rightarrow> ([c], Inl e) | Inr x \<Rightarrow> (c # fst (f x), snd (f x)))"
  by (simp add: then_do_def call_def split: sum.splits prod.splits)

lemma then_do_lift:
  "then_do (lift r) f = (case r of Inl e \<Rightarrow> ([], Inl e) | Inr x \<Rightarrow> f x)"
  by (simp add: then_do_def lift_def split: sum.splits prod.splits)

subsection \<open>The error path of the endpoint\<close>

lemma dispatch_unsupported:
  assumes "strategy_type (strategy_params request) \<noteq> ''ma_crossover''"
    and "strategy_type (strategy_params request) \<noteq> ''rsi''"
  shows "dispatch eng request =
     ([], case make_df (candles request) of
            Inl e \<Rightarrow> Inl e
          | Inr df \<Rightarrow> Inl (HTTPException 400
                       (not_supported (strategy_type (strategy_params request)))))"
  using assms by (simp add: dispatch_def then_do_lift split: sum.splits) (simp add: lift_def)

lemma run_backtest_Inl:
  "run_backtest rt eng request = (cs, Inl e) \<longleftrightarrow>
     (\<exists>e'. dispatch eng request = (cs, Inl e') \<and>
           e = HTTPException 500 (''Backtest failed: '' @ str_exc rt e'))"
  by (cases "dispatch eng request"; cases "snd (dispatch eng request)")
     (auto simp: run_backtest_def)

lemma run_backtest_Inr:
  "run_backtest rt eng request = (cs, Inr res) \<longleftrightarrow>
     (\<exists>res0. dispatch eng request = (cs, Inr res0) \<and>
        res = setitem res0 ''execution_time''
                (JFloat (to_float (time_end rt - time_start rt))))"
  by (cases "dispatch eng request"; cases "snd (dispatch eng request)")
     (auto simp: run_backtest_def)

subsection \<open>The shape of a successful run\<close>

lemma report_Inr:
  "report df pf = Inr res \<longleftrightarrow>
    (\<exists>ec tl wr aw al lw ll pfa tr trp sr md mdp.
       equity_loop df 0 (equity pf) = Inr ec \<and>
       trades_loop df (records_arr (trades pf)) = Inr tl \<and>
       (if 0 < win_count (trades pf) + lose_count (trades pf)
        then int_truediv (int (win_count (trades pf)))
               (int (win_count (trades pf) + lose_count (trades pf)))
        else Inr (Fin 0)) = Inr wr \<and>
       (if 0 < win_count (trades pf) then arr_mean (win_pnl (trades pf)) else Inr (Fin 0)) = Inr aw \<and>
       (if 0 < lose_count (trades pf) then arr_mean (lose_pnl (trades pf)) else Inr (Fin 0)) = Inr al \<and>
       (if 0 < win_count (trades pf) then arr_max (win_pnl (trades pf)) else Inr (Fin 0)) = Inr lw \<and>
       (if 0 < lose_count (trades pf) then arr_min (lose_pnl (trades pf)) else Inr (Fin 0)) = Inr ll \<and>
       profit_factor_of (trades pf) = Inr pfa \<and>
       getitem (stats pf) ''Total Return'' = Inr tr \<and>
       getitem (stats pf) ''Total Return [%]'' = Inr trp \<and>
       getitem (stats pf) ''Sharpe Ratio'' = Inr sr \<and>
       getitem (stats pf) ''Max Drawdown'' = Inr md \<and>
       getitem (stats pf) ''Max Drawdown [%]'' = Inr mdp \<and>
       res = [(''total_return'', JFloat tr),
           (''total_return_pct'', JFloat trp),
           (''sharpe_ratio'', JFloat sr),
           (''max_drawdown'', JFloat md),
           (''max_drawdown_pct'', JFloat mdp),
           (''win_rate'', JFloat (f_mul wr (Fin 100))),
           (''profit_factor'', JFloat pfa),
           (''total_trades'', JInt (int (win_count (trades pf) + lose_count (trades pf)))),
           (''winning_trades'', JInt (int (win_count (trades pf)))),
           (''losing_trades'', JInt (int (lose_count (trades pf)))),
           (''avg_win'', JFloat aw),
           (''avg_loss'', JFloat al),
           (''largest_win'', JFloat lw),
           (''largest_loss'', JFloat ll),
           (''equity_curve'', JList ec),
           (''trades'', JList tl),
           (''execution_time'', JInt 0)])"
  unfolding report_def Let_def bindE_Inr by blast

lemma run_ma_crossover_strategy_eq:
  "run_ma_crossover_strategy eng df p =
    (let cl = close_col df; c1 = Call_MA_run cl (fast_window p);
         c2 = Call_MA_run cl (slow_window p) in
     case MA_run eng cl (fast_window p) of Inl e \<Rightarrow> ([c1], Inl e) | Inr f \<Rightarrow>
     (case MA_run eng cl (slow_window p) of Inl e \<Rightarrow> ([c1, c2], Inl e) | Inr s \<Rightarrow>
     (case ma_above eng f s of Inl e \<Rightarrow> ([c1, c2, Call_ma_above f s], Inl e) | Inr en \<Rightarrow>
     (case ma_below eng f s of
        Inl e \<Rightarrow> ([c1, c2, Call_ma_above f s, Call_ma_below f s], Inl e)
      | Inr ex \<Rightarrow>
     (let c5 = Call_from_signals cl en ex (initial_capital p) (commission_pct p)
                 (stop_loss_pct p) (take_profit_pct p);
          cs = [c1, c2, Call_ma_above f s, Call_ma_below f s, c5] in
      case from_signals eng cl en ex (initial_capital p) (commission_pct p)
                 (stop_loss_pct p) (take_profit_pct p) of
        Inl e \<Rightarrow> (cs, Inl e)
      | Inr pf \<Rightarrow> (cs, report df pf))))))"
  by (simp add: run_ma_crossover_strategy_def then_do_call Let_def lift_def split: sum.splits)

lemma run_rsi_strategy_eq:
  "run_rsi_strategy eng df p =
    (let cl = close_col df; c1 = Call_RSI_run cl (rsi_window p) in
     case RSI_run eng cl (rsi_window p) of Inl e \<Rightarrow> ([c1], Inl e) | Inr r \<Rightarrow>
     (case rsi_below eng r (rsi_oversold p) of
        Inl e \<Rightarrow> ([c1, Call_rsi_below r (rsi_oversold p)], Inl e) | Inr en \<Rightarrow>
     (case rsi_above eng r (rsi_overbought p) of
        Inl e \<Rightarrow> ([c1, Call_rsi_below r (rsi_oversold p),
                  Call_rsi_above r (rsi_overbought p)], Inl e)
      | Inr ex \<Rightarrow>
     (let c4 = Call_from_signals cl en ex (initial_capital p) (commission_pct p)
                 (stop_loss_pct p) (take_profit_pct p);
          cs = [c1, Call_rsi_below r (rsi_oversold p),
                Call_rsi_above r (rsi_overbought p), c4] in
      case from_signals eng cl en ex (initial_capital p) (commission_pct p)
                 (stop_loss_pct p) (take_profit_pct p) of
        Inl e \<Rightarrow> (cs, Inl e)
      | Inr pf \<Rightarrow> (cs, report df pf)))))"
  by (simp add: run_rsi_strategy_def then_do_call Let_def lift_def split: sum.splits)

lemma dispatch_eq:
  "dispatch eng request =
     (case make_df (candles request) of
        Inl e \<Rightarrow> ([], Inl e)
      | Inr df \<Rightarrow>
          if strategy_type (strategy_params request) = ''ma_crossover''
            then run_ma_crossover_strategy eng df (strategy_params request)
          else if strategy_type (strategy_params request) = ''rsi''
            then run_rsi_strategy eng df (strategy_params request)
          else ([], Inl (HTTPException 400
                  (not_supported (strategy_type (strategy_params request))))))"
  by (simp add: dispatch_def then_do_def lift_def split: sum.splits prod.splits)

lemma dispatch_Inr:
  assumes "dispatch eng request = (cs, Inr res)"
  shows "\<exists>df pf en ex.
     make_df (candles request) = Inr df \<and>
     from_signals eng (close_col df) en ex
       (initial_capital (strategy_params request)) (commission_pct (strategy_params request))
       (stop_loss_pct (strategy_params request)) (take_profit_pct (strategy_params request))
       = Inr pf \<and>
     report df pf = Inr res"
  using assms
  by (auto simp: dispatch_eq run_ma_crossover_strategy_eq run_rsi_strategy_eq Let_def
      split: sum.splits if_splits)

lemma map_of_setitem:
  "map_of (setitem d k v) k' = (if k' = k then Some v else map_of d k')"
  by (induction d) auto

text \<open>
  Claim C3. A successful response holds the two return figures, the two drawdown
  figures and the win rate as floats, and the trade list and the equity curve as lists;
  its keys are the seventeen fields of \<^verbatim>\<open>BacktestResult\<close>, in the order of the source.
\<close>

theorem run_backtest_fields_present:
  assumes "run_backtest rt eng request = (cs, Inr res)"
  shows "\<exists>total_return total_return_pct max_drawdown max_drawdown_pct win_rate trade_list
           equity_curve.
     map_of res ''total_return'' = Some (JFloat total_return) \<and>
     map_of res ''total_return_pct'' = Some (JFloat total_return_pct) \<and>
     map_of res ''max_drawdown'' = Some (JFloat max_drawdown) \<and>
     map_of res ''max_drawdown_pct'' = Some (JFloat max_drawdown_pct) \<and>
     map_of res ''win_rate'' = Some (JFloat win_rate) \<and>
     map_of res ''trades'' = Some (JList trade_list) \<and>
     map_of res ''equity_curve'' = Some (JList equity_curve) \<and>
     map fst res =
       [''total_return'', ''total_return_pct'', ''sharpe_ratio'', ''max_drawdown'',
        ''max_drawdown_pct'', ''win_rate'', ''profit_factor'', ''total_trades'',
        ''winning_trades'', ''losing_trades'', ''avg_win'', ''avg_loss'', ''largest_win'',
        ''largest_loss'', ''equity_curve'', ''trades'', ''execution_time'']"
proof -
  from assms obtain res0 where d: "dispatch eng request = (cs, Inr res0)"
    and r: "res = setitem res0 ''execution_time''
                (JFloat (to_float (time_end rt - time_start rt)))"
    by (auto simp: run_backtest_Inr)
  from dispatch_Inr [OF d] obtain df pf where "report df pf = Inr res0" by blast
  then show ?thesis unfolding r report_Inr by (auto simp: map_of_setitem)
qed

subsection \<open>Evaluation at the sample inputs\<close>

lemma bindE_simps:
  "bindE (Inr x) f = f x" "bindE (Inl e) f = Inl e"
  by (simp_all add: bindE_def)

lemma fl_eval:
  "fl 2 = 2" "fl 25 = 25" "fl (1/4) = 1/4" "fl 12 = 12"
  by (simp_all add: fl_def ulp_def ulp_exp_def rne_def eval_nat_numeral Let_def power_int_def)

lemma to_float_eval:
  "to_float 0 = Fin 0" "to_float 2 = Fin 2" "to_float 25 = Fin 25" "to_float (1/4) = Fin (1/4)"
  "to_float 12 = Fin 12"
  by (simp_all add: to_float_def fl_eval Let_def) (simp add: fl_def)

lemma timestamp_ms_eval:
  "timestamp_ms 1000 = 1000" "timestamp_ms 2000 = 2000" "timestamp_ms 1001 = 1000"
  by (simp_all add: timestamp_ms_def Timestamp_timestamp_def py_round6_def py_int_def
      fl_def ulp_def ulp_exp_def rne_def eval_nat_numeral Let_def power_int_def)

lemma make_df_sample: "make_df sample_candles = Inr sample_df"
  by (simp add: make_df_def sample_candles_def sample_df_def candle_at_def in_datetime_range_def)

lemma close_col_sample: "close_col sample_df = [(1000, Fin 50), (2000, Fin 51)]"
  by (simp add: close_col_def sample_df_def candle_at_def)

lemma equity_loop_sample:
  "equity_loop sample_df 0 [a, b] =
     Inr [JDict [(''timestamp'', JInt 1000), (''value'', JFloat a)],
          JDict [(''timestamp'', JInt 2000), (''value'', JFloat b)]]"
  by (simp add: sample_df_def candle_at_def py_index_def bindE_simps timestamp_ms_eval)

lemma report_idle:
  "report sample_df \<lparr>stats = flat_stats, trades = no_trades, equity = [Fin 10000, Fin 10000]\<rparr>
     = Inr idle_result"
  by (simp add: report_def Let_def equity_loop_sample no_trades_def profit_factor_of_def
      flat_stats_def getitem_def bindE_simps to_float_eval idle_result_def
      del: equity_loop.simps)

lemma run_ma_sample:
  "run_ma_crossover_strategy idle_engine sample_df (default_params t) =
     ([Call_MA_run [(1000, Fin 50), (2000, Fin 51)] 20,
       Call_MA_run [(1000, Fin 50), (2000, Fin 51)] 50,
       Call_ma_above ([(1000, Fin 50), (2000, Fin 51)], 20) ([(1000, Fin 50), (2000, Fin 51)], 50),
       Call_ma_below ([(1000, Fin 50), (2000, Fin 51)], 20) ([(1000, Fin 50), (2000, Fin 51)], 50),
       Call_from_signals [(1000, Fin 50), (2000, Fin 51)] [False, False] [False, False]
         (Fin 10000) (Fin (1/1000)) (Fin (1/50)) (Fin (1/25))],
      Inr idle_result)"
  by (simp add: run_ma_crossover_strategy_eq close_col_sample Let_def idle_engine_def
      default_params_def report_idle)

lemma run_rsi_sample:
  "run_rsi_strategy idle_engine sample_df (default_params t) =
     ([Call_RSI_run [(1000, Fin 50), (2000, Fin 51)] 14,
       Call_rsi_below ([(1000, Fin 50), (2000, Fin 51)], 14) 30,
       Call_rsi_above ([(1000, Fin 50), (2000, Fin 51)], 14) 70,
       Call_from_signals [(1000, Fin 50), (2000, Fin 51)] [False, False] [False, False]
         (Fin 10000) (Fin (1/1000)) (Fin (1/50)) (Fin (1/25))],
      Inr idle_result)"
  by (simp add: run_rsi_strategy_eq close_col_sample Let_def idle_engine_def
      default_params_def report_idle)

lemma sample_request_sel:
  "candles (sample_request cs t) = cs"
  "strategy_params (sample_request cs t) = default_params t"
  "strategy_type (default_params t) = t"
  by (simp_all add: sample_request_def default_params_def)

lemma sample_runtime_sel:
  "str_exc sample_runtime = sample_str"
  "to_float (time_end sample_runtime - time_start sample_runtime) = Fin 2"
  by (simp_all add: sample_runtime_def to_float_eval)

lemma run_backtest_sample_ma:
  "run_backtest sample_runtime idle_engine (sample_request sample_candles ''ma_crossover'') =
     (fst (run_ma_crossover_strategy idle_engine sample_df (default_params ''ma_crossover'')),
      Inr (setitem idle_result ''execution_time'' (JFloat (Fin 2))))"
  by (simp add: run_backtest_def dispatch_eq sample_request_sel make_df_sample run_ma_sample
      sample_runtime_sel)

lemma run_backtest_sample_rsi:
  "run_backtest sample_runtime idle_engine (sample_request sample_candles ''rsi'') =
     (fst (run_rsi_strategy idle_engine sample_df (default_params ''rsi'')),
      Inr (setitem idle_result ''execution_time'' (JFloat (Fin 2))))"
  by (simp add: run_backtest_def dispatch_eq sample_request_sel make_df_sample run_rsi_sample
      sample_runtime_sel)

theorem run_backtest_fields_present_witness:
  "\<exists>cs res.
     run_backtest sample_runtime idle_engine (sample_request sample_candles ''rsi'') = (cs, Inr res) \<and>
     map_of res ''win_rate'' \<noteq> None \<and> map_of res ''equity_curve'' \<noteq> None \<and>
     length res = 17"
proof -
  let ?res = "setitem idle_result ''execution_time'' (JFloat (Fin 2))"
  from run_backtest_fields_present [OF run_backtest_sample_rsi]
  have "map_of ?res ''win_rate'' \<noteq> None \<and> map_of ?res ''equity_curve'' \<noteq> None
      \<and> length (map fst ?res) = 17"
    by auto
  then show ?thesis using run_backtest_sample_rsi by simp
qed

subsection \<open>Dispatch on the strategy type\<close>

lemma make_df_Inr:
  "make_df cs = Inr df \<longleftrightarrow>
     cs \<noteq> [] \<and> list_all (\<lambda>c. in_datetime_range (timestamp c)) cs \<and> df = sort_key timestamp cs"
  by (auto simp: make_df_def)

subsection \<open>The equity curve\<close>

lemma py_index_nat:
  "py_index xs (int i) = (if i < length xs then Inr (xs ! i) else Inl IndexError)"
  by (simp add: py_index_def)

lemma equity_loop_Inr:
  "equity_loop df i vs = Inr ec \<Longrightarrow>
     i + length vs \<le> length df \<or> vs = []"
  "equity_loop df i vs = Inr ec \<Longrightarrow>
     ec = map (\<lambda>k. JDict [(''timestamp'', JInt (timestamp_ms (timestamp (df ! (i + k))))),
                          (''value'', JFloat (vs ! k))]) [0..<length vs]"
proof (induction vs arbitrary: i ec)
  case Nil
  { case 1 then show ?case by simp }
  { case 2 then show ?case by simp }
next
  case (Cons v vs)
  { case 1
    then obtain rest where i: "i < length df" and r: "equity_loop df (Suc i) vs = Inr rest"
      by (auto simp: bindE_Inr py_index_nat split: if_splits)
    from Cons.IH(1) [OF r] i show ?case by auto }
  { case 2
    then obtain rest where i: "i < length df" and r: "equity_loop df (Suc i) vs = Inr rest"
      and ec: "ec = JDict [(''timestamp'', JInt (timestamp_ms (timestamp (df ! i)))),
                          (''value'', JFloat v)] # rest"
      by (auto simp: bindE_Inr py_index_nat split: if_splits)
    have "[0..<length (v # vs)] = 0 # map Suc [0..<length vs]"
      by (simp add: upt_conv_Cons map_Suc_upt del: upt_Suc)
    then show ?case
      unfolding ec Cons.IH(2) [OF r] by (simp add: comp_def del: upt_Suc) }
qed

text \<open>
  Claim C6 at a candle stamped 1001 milliseconds: the seconds \<open>1.001\<close> are no binary64
  number, the nearest one is below, its product with 1000 rounds to the float just below
  1001, and \<^verbatim>\<open>int\<close> truncates it to 1000.
\<close>

theorem equity_curve_timestamp_truncated:
  "\<exists>cs res.
     run_backtest sample_runtime idle_engine (sample_request odd_ms_candles ''ma_crossover'')
       = (cs, Inr res) \<and>
     map_of res ''equity_curve'' =
       Some (JList [JDict [(''timestamp'', JInt 1000), (''value'', JFloat (Fin 10000))]])"
proof -
  let ?df = "[candle_at 1001 50]"
  have df: "make_df odd_ms_candles = Inr ?df"
    by (simp add: make_df_def odd_ms_candles_def candle_at_def in_datetime_range_def)
  have cl: "close_col ?df = [(1001, Fin 50)]"
    by (simp add: close_col_def candle_at_def)
  have eq: "equity_loop ?df 0 [Fin 10000] =
      Inr [JDict [(''timestamp'', JInt 1000), (''value'', JFloat (Fin 10000))]]"
    by (simp add: candle_at_def py_index_def bindE_simps timestamp_ms_eval)
  have rep: "\<exists>res0. report ?df \<lparr>stats = flat_stats, trades = no_trades, equity = [Fin 10000]\<rparr>
       = Inr res0 \<and>
      map_of res0 ''equity_curve'' =
       Some (JList [JDict [(''timestamp'', JInt 1000), (''value'', JFloat (Fin 10000))]])"
    by (simp add: report_def Let_def eq no_trades_def profit_factor_of_def
      flat_stats_def getitem_def bindE_simps to_float_eval del: equity_loop.simps)
  then obtain res0 where
    r0: "report ?df \<lparr>stats = flat_stats, trades = no_trades, equity = [Fin 10000]\<rparr> = Inr res0"
    and e0: "map_of res0 ''equity_curve'' =
       Some (JList [JDict [(''timestamp'', JInt 1000), (''value'', JFloat (Fin 10000))]])"
    by blast
  have "\<exists>cs. dispatch idle_engine (sample_request odd_ms_candles ''ma_crossover'') = (cs, Inr res0)"
    by (simp add: dispatch_eq sample_request_sel df run_ma_crossover_strategy_eq cl Let_def
        idle_engine_def default_params_def r0)
  then obtain cs where
    "dispatch idle_engine (sample_request odd_ms_candles ''ma_crossover'') = (cs, Inr res0)"
    by blast
  then have "run_backtest sample_runtime idle_engine
      (sample_request odd_ms_candles ''ma_crossover'')
      = (cs, Inr (setitem res0 ''execution_time''
           (JFloat (to_float (time_end sample_runtime - time_start sample_runtime)))))"
    by (simp add: run_backtest_def)
  then show ?thesis using e0 by (auto simp: map_of_setitem)
qed

subsection \<open>Failures of the handler\<close>

text \<open>
  Claim C8. Whatever exception the body of the handler raises, the endpoint answers with
  status 500 and the detail \<^verbatim>\<open>Backtest failed: \<close> followed by the text of that exception:
  when the data frame cannot be built, when the chosen strategy fails, and when the
  strategy type is not supported, in which case the body raises the rejection with
  status 400 and the client gets it wrapped. Conversely every error answer of the endpoint
  is of this form, and none has status 400.
\<close>

theorem run_backtest_failure_is_500:
  "(\<forall>cs e'. dispatch eng request = (cs, Inl e') \<longrightarrow>
      run_backtest rt eng request =
        (cs, Inl (HTTPException 500 (''Backtest failed: '' @ str_exc rt e'))))
   \<and> (\<forall>e0. make_df (candles request) = Inl e0 \<longrightarrow>
      run_backtest rt eng request =
        ([], Inl (HTTPException 500 (''Backtest failed: '' @ str_exc rt e0))))
   \<and> (\<forall>df cs e'. make_df (candles request) = Inr df \<and>
      strategy_type (strategy_params request) = ''ma_crossover'' \<and>
      run_ma_crossover_strategy eng df (strategy_params request) = (cs, Inl e') \<longrightarrow>
      run_backtest rt eng request =
        (cs, Inl (HTTPException 500 (''Backtest failed: '' @ str_exc rt e'))))
   \<and> (\<forall>df cs e'. make_df (candles request) = Inr df \<and>
      strategy_type (strategy_params request) = ''rsi'' \<and>
      run_rsi_strategy eng df (strategy_params request) = (cs, Inl e') \<longrightarrow>
      run_backtest rt eng request =
        (cs, Inl (HTTPException 500 (''Backtest failed: '' @ str_exc rt e'))))
   \<and> (\<forall>df. make_df (candles request) = Inr df \<and>
      strategy_type (strategy_params request) \<noteq> ''ma_crossover'' \<and>
      strategy_type (strategy_params request) \<noteq> ''rsi'' \<longrightarrow>
      dispatch eng request =
        ([], Inl (HTTPException 400 (not_supported (strategy_type (strategy_params request)))))
      \<and> run_backtest rt eng request =
        ([], Inl (HTTPException 500
           (''Backtest failed: '' @
            str_exc rt (HTTPException 400
              (not_supported (strategy_type (strategy_params request))))))))
   \<and> (\<forall>cs e. run_backtest rt eng request = (cs, Inl e) \<longrightarrow>
      (\<exists>e'. dispatch eng request = (cs, Inl e') \<and>
            e = HTTPException 500 (''Backtest failed: '' @ str_exc rt e')))
   \<and> (\<forall>cs d. run_backtest rt eng request \<noteq> (cs, Inl (HTTPException 400 d)))"
proof (intro conjI allI impI)
  fix cs e'
  assume "dispatch eng request = (cs, Inl e')"
  then show "run_backtest rt eng request =
      (cs, Inl (HTTPException 500 (''Backtest failed: '' @ str_exc rt e')))"
    by (simp add: run_backtest_def)
next
  fix e0
  assume "make_df (candles request) = Inl e0"
  then have "dispatch eng request = ([], Inl e0)"
    by (simp add: dispatch_eq)
  then show "run_backtest rt eng request =
      ([], Inl (HTTPException 500 (''Backtest failed: '' @ str_exc rt e0)))"
    by (simp add: run_backtest_def)
next
  fix df cs e'
  assume "make_df (candles request) = Inr df \<and>
      strategy_type (strategy_params request) = ''ma_crossover'' \<and>
      run_ma_crossover_strategy eng df (strategy_params request) = (cs, Inl e')"
  then have "dispatch eng request = (cs, Inl e')"
    by (simp add: dispatch_eq)
  then show "run_backtest rt eng request =
      (cs, Inl (HTTPException 500 (''Backtest failed: '' @ str_exc rt e')))"
    by (simp add: run_backtest_def)
next
  fix df cs e'
  assume "make_df (candles request) = Inr df \<and>
      strategy_type (strategy_params request) = ''rsi'' \<and>
      run_rsi_strategy eng df (strategy_params request) = (cs, Inl e')"
  then have "dispatch eng request = (cs, Inl e')"
    by (simp add: dispatch_eq)
  then show "run_backtest rt eng request =
      (cs, Inl (HTTPException 500 (''Backtest failed: '' @ str_exc rt e')))"
    by (simp add: run_backtest_def)
next
  fix df
  assume a: "make_df (candles request) = Inr df \<and>
      strategy_type (strategy_params request) \<noteq> ''ma_crossover'' \<and>
      strategy_type (strategy_params request) \<noteq> ''rsi''"
  then show d: "dispatch eng request =
      ([], Inl (HTTPException 400 (not_supported (strategy_type (strategy_params request)))))"
    by (simp add: dispatch_eq)
  then show "run_backtest rt eng request =
        ([], Inl (HTTPException 500
           (''Backtest failed: '' @
            str_exc rt (HTTPException 400
              (not_supported (strategy_type (strategy_params request)))))))"
    by (simp add: run_backtest_def)
next
  fix cs e
  assume "run_backtest rt eng request = (cs, Inl e)"
  then show "\<exists>e'. dispatch eng request = (cs, Inl e') \<and>
            e = HTTPException 500 (''Backtest failed: '' @ str_exc rt e')"
    by (simp add: run_backtest_Inl)
next
  fix cs d
  show "run_backtest rt eng request \<noteq> (cs, Inl (HTTPException 400 d))"
    by (auto simp: run_backtest_Inl)
qed

lemma str_int_400: "str_int 400 = ''400''"
  by (simp add: str_int_def digits.simps)

theorem run_backtest_failure_is_500_witness:
  "run_backtest sample_runtime idle_engine (sample_request sample_candles ''macd'') =
     ([], Inl (HTTPException 500
        (''Backtest failed: 400: Strategy type '' @ [CHR 0x27] @ ''macd'' @ [CHR 0x27]
           @ '' not supported'')))"
proof -
  let ?rq = "sample_request sample_candles ''macd''"
  have h: "make_df (candles ?rq) = Inr sample_df \<and>
      strategy_type (strategy_params ?rq) \<noteq> ''ma_crossover'' \<and>
      strategy_type (strategy_params ?rq) \<noteq> ''rsi''"
    by (simp add: sample_request_sel make_df_sample)
  from run_backtest_failure_is_500 [of idle_engine ?rq sample_runtime] h
  have "run_backtest sample_runtime idle_engine ?rq =
        ([], Inl (HTTPException 500
           (''Backtest failed: '' @
            str_exc sample_runtime (HTTPException 400
              (not_supported (strategy_type (strategy_params ?rq)))))))"
    by blast
  then show ?thesis
    by (simp add: sample_request_sel sample_runtime_sel not_supported_def str_int_400)
qed

subsection \<open>What is handed to the position simulation\<close>

text \<open>
  Claim C4, as the code has it. When the data frame of a request of type \<^verbatim>\<open>ma_crossover\<close>
  is built and the engine's moving averages and comparisons return, the position
  simulation is applied once, to the close column of the sorted frame, to the engine's
  \<^verbatim>\<open>ma_above\<close> of the moving average with window \<open>fast_window\<close> over the one with window
  \<open>slow_window\<close> as entries, to its \<^verbatim>\<open>ma_below\<close> of the same two as exits, and to
  \<open>initial_capital\<close>, \<open>commission_pct\<close>, \<open>stop_loss_pct\<close> and \<open>take_profit_pct\<close>; the
  answer of the endpoint is built from what that application returns. Otherwise the
  position simulation is not called.
\<close>

theorem ma_crossover_hands_signals_to_engine:
  assumes "strategy_type (strategy_params request) = ''ma_crossover''"
  shows
   "(\<forall>df fast_ma slow_ma entries exits.
       make_df (candles request) = Inr df \<and>
       MA_run eng (close_col df) (fast_window (strategy_params request)) = Inr fast_ma \<and>
       MA_run eng (close_col df) (slow_window (strategy_params request)) = Inr slow_ma \<and>
       ma_above eng fast_ma slow_ma = Inr entries \<and>
       ma_below eng fast_ma slow_ma = Inr exits \<longrightarrow>
       run_backtest rt eng request =
         ([Call_MA_run (close_col df) (fast_window (strategy_params request)),
           Call_MA_run (close_col df) (slow_window (strategy_params request)),
           Call_ma_above fast_ma slow_ma,
           Call_ma_below fast_ma slow_ma,
           Call_from_signals (close_col df) entries exits
             (initial_capital (strategy_params request))
             (commission_pct (strategy_params request))
             (stop_loss_pct (strategy_params request))
             (take_profit_pct (strategy_params request))],
          case bindE (from_signals eng (close_col df) entries exits
             (initial_capital (strategy_params request))
             (commission_pct (strategy_params request))
             (stop_loss_pct (strategy_params request))
             (take_profit_pct (strategy_params request))) (report df) of
            Inl e \<Rightarrow> Inl (HTTPException 500 (''Backtest failed: '' @ str_exc rt e))
          | Inr res \<Rightarrow> Inr (setitem res ''execution_time''
                         (JFloat (to_float (time_end rt - time_start rt))))))
    \<and> (\<forall>c \<in> set (fst (run_backtest rt eng request)). is_from_signals c \<longrightarrow>
       (\<exists>df fast_ma slow_ma entries exits.
          make_df (candles request) = Inr df \<and>
       MA_run eng (close_col df) (fast_window (strategy_params request)) = Inr fast_ma \<and>
       MA_run eng (close_col df) (slow_window (strategy_params request)) = Inr slow_ma \<and>
       ma_above eng fast_ma slow_ma = Inr entries \<and>
       ma_below eng fast_ma slow_ma = Inr exits \<and>
          c = Call_from_signals (close_col df) entries exits
             (initial_capital (strategy_params request))
             (commission_pct (strategy_params request))
             (stop_loss_pct (strategy_params request))
             (take_profit_pct (strategy_params request))))"
proof (intro conjI allI impI ballI)
  fix df fast_ma slow_ma entries exits
  assume h: "make_df (candles request) = Inr df \<and>
       MA_run eng (close_col df) (fast_window (strategy_params request)) = Inr fast_ma \<and>
       MA_run eng (close_col df) (slow_window (strategy_params request)) = Inr slow_ma \<and>
       ma_above eng fast_ma slow_ma = Inr entries \<and>
       ma_below eng fast_ma slow_ma = Inr exits"
  show "run_backtest rt eng request =
         ([Call_MA_run (close_col df) (fast_window (strategy_params request)),
           Call_MA_run (close_col df) (slow_window (strategy_params request)),
           Call_ma_above fast_ma slow_ma,
           Call_ma_below fast_ma slow_ma,
           Call_from_signals (close_col df) entries exits
             (initial_capital (strategy_params request))
             (commission_pct (strategy_params request))
             (stop_loss_pct (strategy_params request))
             (take_profit_pct (strategy_params request))],
          case bindE (from_signals eng (close_col df) entries exits
             (initial_capital (strategy_params request))
             (commission_pct (strategy_params request))
             (stop_loss_pct (strategy_params request))
             (take_profit_pct (strategy_params request))) (report df) of
            Inl e \<Rightarrow> Inl (HTTPException 500 (''Backtest failed: '' @ str_exc rt e))
          | Inr res \<Rightarrow> Inr (setitem res ''execution_time''
                         (JFloat (to_float (time_end rt - time_start rt)))))"
    using assms h
    by (simp add: run_backtest_def dispatch_eq run_ma_crossover_strategy_eq Let_def bindE_def
        split: sum.splits)
next
  fix c
  assume c: "c \<in> set (fst (run_backtest rt eng request))" and f: "is_from_signals c"
  have tr: "fst (run_backtest rt eng request) = fst (dispatch eng request)"
    by (simp add: run_backtest_def split: prod.splits sum.splits)
  from c f show "\<exists>df fast_ma slow_ma entries exits.
          make_df (candles request) = Inr df \<and>
       MA_run eng (close_col df) (fast_window (strategy_params request)) = Inr fast_ma \<and>
       MA_run eng (close_col df) (slow_window (strategy_params request)) = Inr slow_ma \<and>
       ma_above eng fast_ma slow_ma = Inr entries \<and>
       ma_below eng fast_ma slow_ma = Inr exits \<and>
          c = Call_from_signals (close_col df) entries exits
             (initial_capital (strategy_params request))
             (commission_pct (strategy_params request))
             (stop_loss_pct (strategy_params request))
             (take_profit_pct (strategy_params request))"
    unfolding tr using assms
    by (auto simp: dispatch_eq run_ma_crossover_strategy_eq Let_def split: sum.splits)
qed

text \<open>
  Claim C5, as the code has it. When the data frame of a request of type \<^verbatim>\<open>rsi\<close> is
  built and the engine's RSI and comparisons return, the position simulation is applied
  once, to the close column of the sorted frame, to the engine's \<^verbatim>\<open>rsi_below\<close> of the RSI
  with window \<open>rsi_window\<close> and \<open>rsi_oversold\<close> as entries, to its \<^verbatim>\<open>rsi_above\<close> of the
  same RSI and \<open>rsi_overbought\<close> as exits, and to \<open>initial_capital\<close>, \<open>commission_pct\<close>,
  \<open>stop_loss_pct\<close> and \<open>take_profit_pct\<close>; the answer of the endpoint is built from what
  that application returns. Otherwise the position simulation is not called.
\<close>

theorem rsi_hands_signals_to_engine:
  assumes "strategy_type (strategy_params request) = ''rsi''"
  shows
   "(\<forall>df rsi entries exits.
       make_df (candles request) = Inr df \<and>
       RSI_run eng (close_col df) (rsi_window (strategy_params request)) = Inr rsi \<and>
       rsi_below eng rsi (rsi_oversold (strategy_params request)) = Inr entries \<and>
       rsi_above eng rsi (rsi_overbought (strategy_params request)) = Inr exits \<longrightarrow>
       run_backtest rt eng request =
         ([Call_RSI_run (close_col df) (rsi_window (strategy_params request)),
           Call_rsi_below rsi (rsi_oversold (strategy_params request)),
           Call_rsi_above rsi (rsi_overbought (strategy_params request)),
           Call_from_signals (close_col df) entries exits
             (initial_capital (strategy_params request))
             (commission_pct (strategy_params request))
             (stop_loss_pct (strategy_params request))
             (take_profit_pct (strategy_params request))],
          case bindE (from_signals eng (close_col df) entries exits
             (initial_capital (strategy_params request))
             (commission_pct (strategy_params request))
             (stop_loss_pct (strategy_params request))
             (take_profit_pct (strategy_params request))) (report df) of
            Inl e \<Rightarrow> Inl (HTTPException 500 (''Backtest failed: '' @ str_exc rt e))
          | Inr res \<Rightarrow> Inr (setitem res ''execution_time''
                         (JFloat (to_float (time_end rt - time_start rt))))))
    \<and> (\<forall>c \<in> set (fst (run_backtest rt eng request)). is_from_signals c \<longrightarrow>
       (\<exists>df rsi entries exits.
          make_df (candles request) = Inr df \<and>
       RSI_run eng (close_col df) (rsi_window (strategy_params request)) = Inr rsi \<and>
       rsi_below eng rsi (rsi_oversold (strategy_params request)) = Inr entries \<and>
       rsi_above eng rsi (rsi_overbought (strategy_params request)) = Inr exits \<and>
          c = Call_from_signals (close_col df) entries exits
             (initial_capital (strategy_params request))
             (commission_pct (strategy_params request))
             (stop_loss_pct (strategy_params request))
             (take_profit_pct (strategy_params request))))"
proof (intro conjI allI impI ballI)
  fix df rsi entries exits
  assume h: "make_df (candles request) = Inr df \<and>
       RSI_run eng (close_col df) (rsi_window (strategy_params request)) = Inr rsi \<and>
       rsi_below eng rsi (rsi_oversold (strategy_params request)) = Inr entries \<and>
       rsi_above eng rsi (rsi_overbought (strategy_params request)) = Inr exits"
  show "run_backtest rt eng request =
         ([Call_RSI_run (close_col df) (rsi_window (strategy_params request)),
           Call_rsi_below rsi (rsi_oversold (strategy_params request)),
           Call_rsi_above rsi (rsi_overbought (strategy_params request)),
           Call_from_signals (close_col df) entries exits
             (initial_capital (strategy_params request))
             (commission_pct (strategy_params request))
             (stop_loss_pct (strategy_params request))
             (take_profit_pct (strategy_params request))],
          case bindE (from_signals eng (close_col df) entries exits
             (initial_capital (strategy_params request))
             (commission_pct (strategy_params request))
             (stop_loss_pct (strategy_params request))
             (take_profit_pct (strategy_params request))) (report df) of
            Inl e \<Rightarrow> Inl (HTTPException 500 (''Backtest failed: '' @ str_exc rt e))
          | Inr res \<Rightarrow> Inr (setitem res ''execution_time''
                         (JFloat (to_float (time_end rt - time_start rt)))))"
    using assms h
    by (simp add: run_backtest_def dispatch_eq run_rsi_strategy_eq Let_def bindE_def
        split: sum.splits)
next
  fix c
  assume c: "c \<in> set (fst (run_backtest rt eng request))" and f: "is_from_signals c"
  have tr: "fst (run_backtest rt eng request) = fst (dispatch eng request)"
    by (simp add: run_backtest_def split: prod.splits sum.splits)
  from c f show "\<exists>df rsi entries exits.
          make_df (candles request) = Inr df \<and>
       RSI_run eng (close_col df) (rsi_window (strategy_params request)) = Inr rsi \<and>
       rsi_below eng rsi (rsi_oversold (strategy_params request)) = Inr entries \<and>
       rsi_above eng rsi (rsi_overbought (strategy_params request)) = Inr exits \<and>
          c = Call_from_signals (close_col df) entries exits
             (initial_capital (strategy_params request))
             (commission_pct (strategy_params request))
             (stop_loss_pct (strategy_params request))
             (take_profit_pct (strategy_params request))"
    unfolding tr using assms
    by (auto simp: dispatch_eq run_rsi_strategy_eq Let_def split: sum.splits)
qed

theorem ma_crossover_hands_signals_to_engine_witness:
  "run_backtest sample_runtime idle_engine (sample_request sample_candles ''ma_crossover'') =
     ([Call_MA_run [(1000, Fin 50), (2000, Fin 51)] 20,
       Call_MA_run [(1000, Fin 50), (2000, Fin 51)] 50,
       Call_ma_above ([(1000, Fin 50), (2000, Fin 51)], 20) ([(1000, Fin 50), (2000, Fin 51)], 50),
       Call_ma_below ([(1000, Fin 50), (2000, Fin 51)], 20) ([(1000, Fin 50), (2000, Fin 51)], 50),
       Call_from_signals [(1000, Fin 50), (2000, Fin 51)] [False, False] [False, False]
         (Fin 10000) (Fin (1/1000)) (Fin (1/50)) (Fin (1/25))],
      Inr (setitem idle_result ''execution_time'' (JFloat (Fin 2))))"
proof -
  let ?rq = "sample_request sample_candles ''ma_crossover''"
  let ?cl = "[(1000, Fin 50), (2000, Fin 51)] :: series"
  have st: "strategy_type (strategy_params ?rq) = ''ma_crossover''"
    by (simp add: sample_request_sel)
  have h: "make_df (candles ?rq) = Inr sample_df \<and>
      MA_run idle_engine (close_col sample_df) (fast_window (strategy_params ?rq)) = Inr (?cl, 20) \<and>
      MA_run idle_engine (close_col sample_df) (slow_window (strategy_params ?rq)) = Inr (?cl, 50) \<and>
      ma_above idle_engine (?cl, 20) (?cl, 50) = Inr [False, False] \<and>
      ma_below idle_engine (?cl, 20) (?cl, 50) = Inr [False, False]"
    by (simp add: sample_request_sel make_df_sample close_col_sample idle_engine_def
        default_params_def)
  have fs: "from_signals idle_engine ?cl [False, False] [False, False]
      (Fin 10000) (Fin (1/1000)) (Fin (1/50)) (Fin (1/25)) =
      Inr \<lparr>stats = flat_stats, trades = no_trades, equity = [Fin 10000, Fin 10000]\<rparr>"
    by (simp add: idle_engine_def)
  note ma_crossover_hands_signals_to_engine
    [where rt = sample_runtime and eng = idle_engine, OF st, THEN conjunct1, rule_format, OF h]
  moreover have "close_col sample_df = ?cl"
    by (rule close_col_sample)
  moreover have "strategy_params ?rq = default_params ''ma_crossover''"
    by (simp add: sample_request_sel)
  ultimately show ?thesis
    by (simp add: fs default_params_def bindE_simps report_idle sample_runtime_sel)
qed

text \<open>
  Two requests of this type for which nothing is handed to the position simulation: one
  without candles, and one served by an engine whose indicator raises.
\<close>

theorem ma_crossover_nothing_handed_counterexample:
  "run_backtest sample_runtime idle_engine (sample_request [] ''ma_crossover'') =
     ([], Inl (HTTPException 500
        (''Backtest failed: '' @ [CHR 0x27] @ ''timestamp'' @ [CHR 0x27])))
   \<and> run_backtest sample_runtime failing_engine (sample_request sample_candles ''ma_crossover'') =
     ([Call_MA_run [(1000, Fin 50), (2000, Fin 51)] 20],
      Inl (HTTPException 500 ''Backtest failed: bad window''))"
proof
  show "run_backtest sample_runtime idle_engine (sample_request [] ''ma_crossover'') =
     ([], Inl (HTTPException 500
        (''Backtest failed: '' @ [CHR 0x27] @ ''timestamp'' @ [CHR 0x27])))"
    by (simp add: run_backtest_def dispatch_eq make_df_def sample_request_sel
        sample_runtime_sel)
  show "run_backtest sample_runtime failing_engine
      (sample_request sample_candles ''ma_crossover'') =
     ([Call_MA_run [(1000, Fin 50), (2000, Fin 51)] 20],
      Inl (HTTPException 500 ''Backtest failed: bad window''))"
    by (simp add: run_backtest_def dispatch_eq sample_request_sel sample_runtime_sel
        make_df_sample run_ma_crossover_strategy_eq close_col_sample Let_def failing_engine_def
        idle_engine_def default_params_def)
qed

theorem rsi_hands_signals_to_engine_witness:
  "run_backtest sample_runtime idle_engine (sample_request sample_candles ''rsi'') =
     ([Call_RSI_run [(1000, Fin 50), (2000, Fin 51)] 14,
       Call_rsi_below ([(1000, Fin 50), (2000, Fin 51)], 14) 30,
       Call_rsi_above ([(1000, Fin 50), (2000, Fin 51)], 14) 70,
       Call_from_signals [(1000, Fin 50), (2000, Fin 51)] [False, False] [False, False]
         (Fin 10000) (Fin (1/1000)) (Fin (1/50)) (Fin (1/25))],
      Inr (setitem idle_result ''execution_time'' (JFloat (Fin 2))))"
proof -
  let ?rq = "sample_request sample_candles ''rsi''"
  let ?cl = "[(1000, Fin 50), (2000, Fin 51)] :: series"
  have st: "strategy_type (strategy_params ?rq) = ''rsi''"
    by (simp add: sample_request_sel)
  have h: "make_df (candles ?rq) = Inr sample_df \<and>
      RSI_run idle_engine (close_col sample_df) (rsi_window (strategy_params ?rq)) = Inr (?cl, 14) \<and>
      rsi_below idle_engine (?cl, 14) (rsi_oversold (strategy_params ?rq)) = Inr [False, False] \<and>
      rsi_above idle_engine (?cl, 14) (rsi_overbought (strategy_params ?rq)) = Inr [False, False]"
    by (simp add: sample_request_sel make_df_sample close_col_sample idle_engine_def
        default_params_def)
  have fs: "from_signals idle_engine ?cl [False, False] [False, False]
      (Fin 10000) (Fin (1/1000)) (Fin (1/50)) (Fin (1/25)) =
      Inr \<lparr>stats = flat_stats, trades = no_trades, equity = [Fin 10000, Fin 10000]\<rparr>"
    by (simp add: idle_engine_def)
  note rsi_hands_signals_to_engine
    [where rt = sample_runtime and eng = idle_engine, OF st, THEN conjunct1, rule_format, OF h]
  moreover have "close_col sample_df = ?cl"
    by (rule close_col_sample)
  moreover have "strategy_params ?rq = default_params ''rsi''"
    by (simp add: sample_request_sel)
  ultimately show ?thesis
    by (simp add: fs default_params_def bindE_simps report_idle sample_runtime_sel)
qed

text \<open>
  Two requests of this type for which nothing is handed to the position simulation: one
  without candles, and one served by an engine whose indicator raises.
\<close>

theorem rsi_nothing_handed_counterexample:
  "run_backtest sample_runtime idle_engine (sample_request [] ''rsi'') =
     ([], Inl (HTTPException 500
        (''Backtest failed: '' @ [CHR 0x27] @ ''timestamp'' @ [CHR 0x27])))
   \<and> run_backtest sample_runtime failing_engine (sample_request sample_candles ''rsi'') =
     ([Call_RSI_run [(1000, Fin 50), (2000, Fin 51)] 14],
      Inl (HTTPException 500 ''Backtest failed: bad window''))"
proof
  show "run_backtest sample_runtime idle_engine (sample_request [] ''rsi'') =
     ([], Inl (HTTPException 500
        (''Backtest failed: '' @ [CHR 0x27] @ ''timestamp'' @ [CHR 0x27])))"
    by (simp add: run_backtest_def dispatch_eq make_df_def sample_request_sel
        sample_runtime_sel)
  show "run_backtest sample_runtime failing_engine
      (sample_request sample_candles ''rsi'') =
     ([Call_RSI_run [(1000, Fin 50), (2000, Fin 51)] 14],
      Inl (HTTPException 500 ''Backtest failed: bad window''))"
    by (simp add: run_backtest_def dispatch_eq sample_request_sel sample_runtime_sel
        make_df_sample run_rsi_strategy_eq close_col_sample Let_def failing_engine_def
        idle_engine_def default_params_def)
qed

subsection \<open>Dispatch on the strategy type\<close>

text \<open>
  Claim C2, as the code has it. When the data frame of a request is built, it is the list
  of the candles sorted by timestamp, and the body of the handler is the strategy named by
  \<open>strategy_type\<close> run on it; for any other type the body rejects the request with the
  message that the strategy type is not supported, and the endpoint returns that rejection
  as its error. Whatever the candles, a request of another type makes no call into the
  engine and gets an error.
\<close>

theorem dispatch_by_strategy_type:
  "(\<forall>df. make_df (candles request) = Inr df \<longrightarrow>
      df = sort_key timestamp (candles request) \<and>
      (strategy_type (strategy_params request) = ''ma_crossover'' \<longrightarrow>
         dispatch eng request = run_ma_crossover_strategy eng df (strategy_params request) \<and>
         run_backtest rt eng request =
           (case run_ma_crossover_strategy eng df (strategy_params request) of
              (cs, Inr result) \<Rightarrow>
                (cs, Inr (setitem result ''execution_time''
                            (JFloat (to_float (time_end rt - time_start rt)))))
            | (cs, Inl e) \<Rightarrow>
                (cs, Inl (HTTPException 500 (''Backtest failed: '' @ str_exc rt e))))) \<and>
      (strategy_type (strategy_params request) = ''rsi'' \<longrightarrow>
         dispatch eng request = run_rsi_strategy eng df (strategy_params request) \<and>
         run_backtest rt eng request =
           (case run_rsi_strategy eng df (strategy_params request) of
              (cs, Inr result) \<Rightarrow>
                (cs, Inr (setitem result ''execution_time''
                            (JFloat (to_float (time_end rt - time_start rt)))))
            | (cs, Inl e) \<Rightarrow>
                (cs, Inl (HTTPException 500 (''Backtest failed: '' @ str_exc rt e))))) \<and>
      (strategy_type (strategy_params request) \<noteq> ''ma_crossover'' \<and>
       strategy_type (strategy_params request) \<noteq> ''rsi'' \<longrightarrow>
         dispatch eng request =
           ([], Inl (HTTPException 400
                  (not_supported (strategy_type (strategy_params request))))) \<and>
         run_backtest rt eng request =
           ([], Inl (HTTPException 500
              (''Backtest failed: '' @
               str_exc rt (HTTPException 400
                 (not_supported (strategy_type (strategy_params request)))))))))
   \<and> (strategy_type (strategy_params request) \<noteq> ''ma_crossover'' \<and>
      strategy_type (strategy_params request) \<noteq> ''rsi'' \<longrightarrow>
        fst (run_backtest rt eng request) = [] \<and>
        (\<exists>e. snd (run_backtest rt eng request) = Inl e))"
proof (intro conjI allI impI)
  fix df
  assume df: "make_df (candles request) = Inr df"
  then show "df = sort_key timestamp (candles request)"
    by (simp add: make_df_Inr)
  { assume "strategy_type (strategy_params request) = ''ma_crossover''"
    with df show d: "dispatch eng request =
        run_ma_crossover_strategy eng df (strategy_params request)"
      by (simp add: dispatch_eq)
    show "run_backtest rt eng request =
           (case run_ma_crossover_strategy eng df (strategy_params request) of
              (cs, Inr result) \<Rightarrow>
                (cs, Inr (setitem result ''execution_time''
                            (JFloat (to_float (time_end rt - time_start rt)))))
            | (cs, Inl e) \<Rightarrow>
                (cs, Inl (HTTPException 500 (''Backtest failed: '' @ str_exc rt e))))"
      unfolding run_backtest_def d by (simp split: prod.splits sum.splits) }
  { assume "strategy_type (strategy_params request) = ''rsi''"
    with df show d: "dispatch eng request =
        run_rsi_strategy eng df (strategy_params request)"
      by (simp add: dispatch_eq)
    show "run_backtest rt eng request =
           (case run_rsi_strategy eng df (strategy_params request) of
              (cs, Inr result) \<Rightarrow>
                (cs, Inr (setitem result ''execution_time''
                            (JFloat (to_float (time_end rt - time_start rt)))))
            | (cs, Inl e) \<Rightarrow>
                (cs, Inl (HTTPException 500 (''Backtest failed: '' @ str_exc rt e))))"
      unfolding run_backtest_def d by (simp split: prod.splits sum.splits) }
  { assume "strategy_type (strategy_params request) \<noteq> ''ma_crossover'' \<and>
       strategy_type (strategy_params request) \<noteq> ''rsi''"
    with df show d: "dispatch eng request =
           ([], Inl (HTTPException 400
                  (not_supported (strategy_type (strategy_params request)))))"
      by (simp add: dispatch_eq)
    show "run_backtest rt eng request =
           ([], Inl (HTTPException 500
              (''Backtest failed: '' @
               str_exc rt (HTTPException 400
                 (not_supported (strategy_type (strategy_params request)))))))"
      unfolding run_backtest_def d by simp }
next
  assume u: "strategy_type (strategy_params request) \<noteq> ''ma_crossover'' \<and>
      strategy_type (strategy_params request) \<noteq> ''rsi''"
  then have d: "dispatch eng request =
     ([], case make_df (candles request) of
            Inl e \<Rightarrow> Inl e
          | Inr df \<Rightarrow> Inl (HTTPException 400
                       (not_supported (strategy_type (strategy_params request)))))"
    by (simp add: dispatch_unsupported)
  show "fst (run_backtest rt eng request) = []"
    unfolding run_backtest_def d by (simp split: sum.splits)
  show "\<exists>e. snd (run_backtest rt eng request) = Inl e"
    unfolding run_backtest_def d by (simp split: sum.splits)
qed

theorem dispatch_by_strategy_type_witness:
  "dispatch idle_engine (sample_request sample_candles ''rsi'') =
     run_rsi_strategy idle_engine sample_df (default_params ''rsi'')
   \<and> sample_df = sort_key timestamp sample_candles"
proof -
  let ?rq = "sample_request sample_candles ''rsi''"
  have df: "make_df (candles ?rq) = Inr sample_df"
    by (simp add: sample_request_sel make_df_sample)
  have st: "strategy_type (strategy_params ?rq) = ''rsi''"
    by (simp add: sample_request_sel)
  from dispatch_by_strategy_type [where request = ?rq and eng = idle_engine and rt = sample_runtime] df st
  have "sample_df = sort_key timestamp (candles ?rq) \<and>
      dispatch idle_engine ?rq = run_rsi_strategy idle_engine sample_df (strategy_params ?rq)"
    by blast
  then show ?thesis
    by (simp add: sample_request_sel)
qed

text \<open>
  With no candles the data frame has no \<^verbatim>\<open>timestamp\<close> column: the body fails before the
  strategy type is looked at. A request of type \<^verbatim>\<open>ma_crossover\<close> runs no strategy, and for a
  type that is not supported the detail names the missing column, not the strategy.
\<close>

theorem dispatch_empty_candles_counterexample:
  "run_backtest sample_runtime idle_engine (sample_request [] ''ma_crossover'') =
     ([], Inl (HTTPException 500
        (''Backtest failed: '' @ [CHR 0x27] @ ''timestamp'' @ [CHR 0x27])))
   \<and> run_backtest sample_runtime idle_engine (sample_request [] ''macd'') =
     ([], Inl (HTTPException 500
        (''Backtest failed: '' @ [CHR 0x27] @ ''timestamp'' @ [CHR 0x27])))"
  by (simp add: run_backtest_def dispatch_eq make_df_def sample_request_sel sample_runtime_sel)

subsection \<open>The order of the candles\<close>






subsection \<open>The polling script\<close>

lemma poll_Cons:
  "poll w pid (i # rest) =
     (case requests_get w i (API_URL_format pid) of
        Inl e \<Rightarrow> ([HttpGet (API_URL_format pid)], Inl e)
      | Inr resp \<Rightarrow>
         (case resp_json w resp of
            Inl e \<Rightarrow> ([HttpGet (API_URL_format pid)], Inl e)
          | Inr body \<Rightarrow>
             (HttpGet (API_URL_format pid) #
              Print (''Assessment '' @ str_int (int i + 1) @ '': '' @ body) #
              Sleep (1 / 2) # fst (poll w pid rest),
              snd (poll w pid rest))))"
  by (simp add: then_do_call then_do_lift split: sum.splits)

lemma poll_requests:
  "(\<forall>e \<in> set (fst (poll w pid ns)). is_request e \<longrightarrow> e = HttpGet (API_URL_format pid))
   \<and> length (filter is_request (fst (poll w pid ns))) \<le> length ns"
proof (induction ns)
  case Nil
  show ?case by (simp add: lift_def)
next
  case (Cons i rest)
  then show ?case
    by (simp add: poll_Cons del: poll.simps split: sum.splits)
qed

lemma poll_answered:
  assumes "\<forall>i \<in> set ns. \<exists>r b. requests_get w i (API_URL_format pid) = Inr r \<and>
             resp_json w r = Inr b"
  shows "poll w pid ns =
     (concat (map (\<lambda>i.
        [HttpGet (API_URL_format pid),
         Print (''Assessment '' @ str_int (int i + 1) @ '': '' @
                projr (resp_json w (projr (requests_get w i (API_URL_format pid))))),
         Sleep (1 / 2)]) ns),
      Inr ())"
  using assms
proof (induction ns)
  case Nil
  show ?case by (simp add: lift_def)
next
  case (Cons i rest)
  from Cons.prems obtain r b where
    rb: "requests_get w i (API_URL_format pid) = Inr r" "resp_json w r = Inr b"
    by auto
  from Cons.prems have "\<forall>i \<in> set rest. \<exists>r b. requests_get w i (API_URL_format pid) = Inr r \<and>
             resp_json w r = Inr b"
    by simp
  from Cons.IH [OF this] show ?case
    by (simp add: poll_Cons rb del: poll.simps)
qed

lemma upt_ten: "[0..<10] = 0 # [Suc 0..<10]"
  by (subst upt_rec) (simp only: zero_less_numeral if_True)

text \<open>
  Claim C7, as the code has it. When each of the ten requests is answered and its body
  parses, the script performs, ten times over, one GET of the risk-assessment URL of
  \<^verbatim>\<open>YOUR_PORTFOLIO_ID\<close>, one print of the parsed body and one sleep of half a second, and
  nothing else. Whatever the server does, every request it sends is a GET of that URL,
  there are at most ten of them, and none is a POST.
\<close>

theorem stress_test_polls_ten_times:
  "((\<forall>i < 10. \<exists>r b. requests_get w i (API_URL_format ''YOUR_PORTFOLIO_ID'') = Inr r \<and>
        resp_json w r = Inr b) \<longrightarrow>
      stress_test_drawdown w =
        (concat (map (\<lambda>i.
           [HttpGet ''http://localhost:3000/api/portfolios/YOUR_PORTFOLIO_ID/risk/assessment'',
            Print (''Assessment '' @ str_int (int i + 1) @ '': '' @
                   projr (resp_json w
                     (projr (requests_get w i (API_URL_format ''YOUR_PORTFOLIO_ID''))))),
            Sleep (1 / 2)]) [0..<10]),
         Inr ())
      \<and> filter is_request (fst (stress_test_drawdown w)) =
          replicate 10
            (HttpGet ''http://localhost:3000/api/portfolios/YOUR_PORTFOLIO_ID/risk/assessment''))
   \<and> (\<forall>e \<in> set (fst (stress_test_drawdown w)). is_request e \<longrightarrow>
        e = HttpGet ''http://localhost:3000/api/portfolios/YOUR_PORTFOLIO_ID/risk/assessment'')
   \<and> length (filter is_request (fst (stress_test_drawdown w))) \<le> 10"
proof -
  have url: "API_URL_format ''YOUR_PORTFOLIO_ID'' =
      ''http://localhost:3000/api/portfolios/YOUR_PORTFOLIO_ID/risk/assessment''"
    by (simp add: API_URL_format_def)
  have flt: "filter is_request (concat (map (\<lambda>i. [HttpGet u, Print (p i), Sleep t]) ns)) =
      replicate (length ns) (HttpGet u)" for u p t and ns :: "nat list"
    by (induction ns) auto
  have len: "length [0..<10] = 10"
    by (simp only: length_upt diff_zero)
  note p = poll_requests [of w "''YOUR_PORTFOLIO_ID''" "[0..<10]",
      folded stress_test_drawdown_def, unfolded url len]
  show ?thesis
  proof (intro conjI impI)
    assume a: "\<forall>i < 10. \<exists>r b. requests_get w i (API_URL_format ''YOUR_PORTFOLIO_ID'') = Inr r \<and>
        resp_json w r = Inr b"
    have "\<forall>i \<in> set [0..<10].
        \<exists>r b. requests_get w i (API_URL_format ''YOUR_PORTFOLIO_ID'') = Inr r \<and>
        resp_json w r = Inr b"
    proof
      fix i assume "i \<in> set [0..<10]"
      then have "i < 10" by simp
      with a show "\<exists>r b. requests_get w i (API_URL_format ''YOUR_PORTFOLIO_ID'') = Inr r \<and>
        resp_json w r = Inr b" by blast
    qed
    note q = poll_answered [OF this, folded stress_test_drawdown_def]
    show eq: "stress_test_drawdown w =
        (concat (map (\<lambda>i.
           [HttpGet ''http://localhost:3000/api/portfolios/YOUR_PORTFOLIO_ID/risk/assessment'',
            Print (''Assessment '' @ str_int (int i + 1) @ '': '' @
                   projr (resp_json w
                     (projr (requests_get w i (API_URL_format ''YOUR_PORTFOLIO_ID''))))),
            Sleep (1 / 2)]) [0..<10]),
         Inr ())"
      using q by (simp only: url)
    show "filter is_request (fst (stress_test_drawdown w)) =
          replicate 10
            (HttpGet ''http://localhost:3000/api/portfolios/YOUR_PORTFOLIO_ID/risk/assessment'')"
      by (simp only: eq fst_conv flt len)
  next
    from p show "\<forall>e \<in> set (fst (stress_test_drawdown w)). is_request e \<longrightarrow>
        e = HttpGet ''http://localhost:3000/api/portfolios/YOUR_PORTFOLIO_ID/risk/assessment''"
      by (rule conjunct1)
  next
    from p show "length (filter is_request (fst (stress_test_drawdown w))) \<le> 10"
      by (rule conjunct2)
  qed
qed

theorem stress_test_polls_ten_times_witness:
  "filter is_request (fst (stress_test_drawdown sample_web)) =
     replicate 10
       (HttpGet ''http://localhost:3000/api/portfolios/YOUR_PORTFOLIO_ID/risk/assessment'')
   \<and> snd (stress_test_drawdown sample_web) = Inr ()"
proof -
  have a: "\<forall>i < 10. \<exists>r b.
      requests_get sample_web i (API_URL_format ''YOUR_PORTFOLIO_ID'') = Inr r \<and>
      resp_json sample_web r = Inr b"
    by (simp add: sample_web_def)
  note t = stress_test_polls_ten_times [of sample_web, THEN conjunct1, THEN mp, OF a]
  have s: "snd (stress_test_drawdown sample_web) = Inr ()"
    by (subst t [THEN conjunct1]) (simp only: snd_conv)
  from t [THEN conjunct2] s show ?thesis
    by (rule conjI)
qed

text \<open>A server that refuses the connection: the script stops after its first request.\<close>

theorem stress_test_refused_counterexample:
  "stress_test_drawdown refusing_web =
     ([HttpGet ''http://localhost:3000/api/portfolios/YOUR_PORTFOLIO_ID/risk/assessment''],
      Inl (LibraryError ''Connection refused''))"
  by (simp only: stress_test_drawdown_def upt_ten poll_Cons)
     (simp add: refusing_web_def API_URL_format_def)

subsection \<open>Rounding keeps a quotient of counts in range\<close>

lemma rne_le:
  assumes "t \<le> of_int n"
  shows "rne t \<le> n"
proof (cases "\<lfloor>t\<rfloor> = n")
  case True
  with assms have "t = of_int \<lfloor>t\<rfloor>"
    using of_int_floor_le [of t] by linarith
  then have "t - of_int \<lfloor>t\<rfloor> < 1 / 2" by simp
  then show ?thesis using True by (simp add: rne_def Let_def)
next
  case False
  from assms have "\<lfloor>t\<rfloor> \<le> n" by (simp add: floor_le_iff) 
  with False have "\<lfloor>t\<rfloor> + 1 \<le> n" by simp
  then show ?thesis by (simp add: rne_def Let_def)
qed

lemma rne_nonneg:
  assumes "0 \<le> t"
  shows "0 \<le> rne t"
proof -
  from assms have "0 \<le> \<lfloor>t\<rfloor>" by simp
  then show ?thesis by (simp add: rne_def Let_def)
qed

lemma ulp_pos: "0 < ulp x"
  by (simp add: ulp_def)

lemma fl_nonneg:
  assumes "0 \<le> x"
  shows "0 \<le> fl x"
proof -
  from assms have "0 \<le> x / ulp x"
    using ulp_pos [of x] by simp
  then have "0 \<le> rne (x / ulp x)" by (rule rne_nonneg)
  then show ?thesis
    using ulp_pos [of x] by (simp add: fl_def)
qed

lemma ilog2_less:
  "x < 2 ^ k \<Longrightarrow> 0 < k \<Longrightarrow> ilog2 n x < int k"
proof (induction n arbitrary: x k)
  case 0
  then show ?case by simp
next
  case (Suc n)
  show ?case
  proof (cases "2 \<le> x")
    case True
    with Suc.prems have "(2::real) ^ 1 < 2 ^ k" by simp
    then have k: "1 < k" by (simp only: power_strict_increasing_iff one_less_numeral_iff semiring_norm)
    then obtain j where j: "k = Suc j" "0 < j" by (cases k) auto
    from Suc.prems j have "x / 2 < 2 ^ j" by simp
    from Suc.IH [OF this j(2)] True j show ?thesis by simp
  next
    case False
    show ?thesis
    proof (cases "x < 1")
      case True
      from Suc.prems(2) have "(2::real) ^ 1 \<le> 2 ^ k"
        by (intro power_increasing) simp_all
      with True have "x * 2 < 2 ^ k" by simp
      from Suc.IH [OF this Suc.prems(2)] True False show ?thesis by simp
    next
      case F: False
      with False Suc.prems show ?thesis by simp
    qed
  qed
qed

lemma ulp_exp_le_0:
  assumes "\<bar>x\<bar> < 2 ^ k" and "0 < k" and "k \<le> 52"
  shows "ulp_exp x \<le> 0"
  using ilog2_less [OF assms(1,2), of 1100] assms(3) by (simp add: ulp_exp_def)

lemma fl_le_int:
  assumes "0 \<le> x" and "x \<le> of_int m" and "ulp_exp x \<le> 0"
  shows "fl x \<le> of_int m"
proof (cases "x = 0")
  case True
  with assms show ?thesis by (simp add: fl_def)
next
  case False
  define d where "d = nat (- ulp_exp x)"
  have u: "ulp x = 1 / 2 ^ d"
    using assms(3) by (simp add: ulp_def d_def power_int_def field_simps)
  have "x / ulp x \<le> of_int (m * 2 ^ d)"
    using assms(2) by (simp add: u)
  then have "rne (x / ulp x) \<le> m * 2 ^ d" by (rule rne_le)
  then have "(of_int (rne (x / ulp x)) :: real) \<le> of_int (m * 2 ^ d)"
    by (simp only: of_int_le_iff)
  then have "of_int (rne (x / ulp x)) * ulp x \<le> of_int m"
    by (simp add: u field_simps)
  then show ?thesis using False by (simp add: fl_def)
qed

lemma to_float_bounded:
  assumes "0 \<le> x" and "x \<le> of_int m" and "x < 2 ^ k" and "0 < k" and "k \<le> 52"
    and "m \<le> 100"
  shows "\<exists>y. to_float x = Fin y \<and> 0 \<le> y \<and> y \<le> of_int m"
proof -
  from assms(1,3) have "\<bar>x\<bar> < 2 ^ k" by simp
  from ulp_exp_le_0 [OF this assms(4,5)] have e: "ulp_exp x \<le> 0" .
  have lo: "0 \<le> fl x" using assms(1) by (rule fl_nonneg)
  have hi: "fl x \<le> of_int m" using assms(1,2) e by (rule fl_le_int)
  have "(of_int m :: real) \<le> 100" using assms(6) by simp
  moreover have "(100 :: real) < 2 ^ 1024" by simp
  ultimately have "fl x < 2 ^ 1024" using hi by linarith
  moreover have "- (2 ^ 1024 :: real) < 0" by simp
  then have "- (2 ^ 1024) < fl x" using lo by linarith
  ultimately show ?thesis using lo hi by (simp add: to_float_def Let_def)
qed

lemma win_rate_percent:
  assumes "0 < w + l"
  shows "\<exists>r p. int_truediv (int w) (int (w + l)) = Inr (Fin r) \<and>
           f_mul (Fin r) (Fin 100) = Fin p \<and> 0 \<le> p \<and> p \<le> 100"
proof -
  let ?q = "real w / real (w + l)"
  have q0: "0 \<le> ?q" by simp
  have pos: "0 < real (w + l)" using assms by (simp only: of_nat_0_less_iff)
  have "?q \<le> 1" by (subst divide_le_eq_1_pos [OF pos]) simp
  then have q1: "?q \<le> of_int 1" by simp
  have q2: "?q < 2 ^ 1" using q1 by simp
  from to_float_bounded [OF q0 q1 q2] obtain r where
    r: "to_float ?q = Fin r" "0 \<le> r" "r \<le> 1"
    by auto
  have p0: "0 \<le> r * 100" using r(2) by simp
  have p1: "r * 100 \<le> of_int 100" using r(3) by simp
  have p2: "r * 100 < 2 ^ 7" using r(3) by simp
  from to_float_bounded [OF p0 p1 p2] obtain p where
    p: "to_float (r * 100) = Fin p" "0 \<le> p" "p \<le> 100"
    by auto
  have nz: "int (w + l) \<noteq> 0" using assms by linarith
  have "int_truediv (int w) (int (w + l)) = Inr (Fin r)"
    using nz r(1) by (simp add: int_truediv_def del: of_nat_add)
  with p show ?thesis by simp
qed

subsection \<open>A portfolio with four closed trades\<close>

lemma to_float_neg2: "to_float (- 2) = Fin (- 2)"
  by (simp add: to_float_def fl_def ulp_def ulp_exp_def rne_def eval_nat_numeral Let_def
      power_int_def)

lemma py_index_sample:
  "py_index sample_df 0 = Inr (candle_at 1000 50)"
  "py_index sample_df 1 = Inr (candle_at 2000 51)"
  by (simp_all add: py_index_def sample_df_def)

lemma trades_loop_sample:
  "trades_loop sample_df (records_arr sample_trades) =
     Inr [JDict
            [(''id'', JStr ''0''),
             (''symbol'', JStr ''Unknown''),
             (''side'', JStr ''sell''),
             (''entryTime'', JInt 1000),
             (''exitTime'', JInt 2000),
             (''entryPrice'', JFloat (Fin 100)),
             (''exitPrice'', JFloat (Fin 112)),
             (''quantity'', JFloat (Fin 1)),
             (''pnl'', JFloat (Fin 12)),
             (''pnlPercent'', JFloat (Fin 12)),
             (''status'', JStr ''closed'')]]"
  by (simp add: sample_trades_def trade_entry_def py_index_sample bindE_simps candle_at_def
      timestamp_ms_eval to_float_eval str_int_def digits.simps [of 0])

lemma profit_factor_sample: "profit_factor_of sample_trades = Inr (Fin 2)"
  by (simp add: profit_factor_of_def sample_trades_def bindE_simps to_float_neg2)

lemma report_sample: "report sample_df sample_portfolio = Inr sample_report"
proof -
  have t: "trades sample_portfolio = sample_trades"
    and e: "equity sample_portfolio = [Fin 10000, Fin 10012]"
    and s: "stats sample_portfolio = flat_stats"
    by (simp_all add: sample_portfolio_def)
  have c: "win_count sample_trades = 1" "lose_count sample_trades = 3"
    "arr_mean (win_pnl sample_trades) = Inr (Fin 12)"
    "arr_max (win_pnl sample_trades) = Inr (Fin 12)"
    "arr_mean (lose_pnl sample_trades) = Inr (Fin (- 2))"
    "arr_min (lose_pnl sample_trades) = Inr (Fin (- 3))"
    by (simp_all add: sample_trades_def)
  have w: "int_truediv 1 4 = Inr (Fin (1/4))"
    by (simp add: int_truediv_def to_float_eval)
  show ?thesis
    unfolding report_def Let_def t e s c
    by (simp add: equity_loop_sample trades_loop_sample profit_factor_sample w
        flat_stats_def getitem_def bindE_simps to_float_eval sample_report_def
        del: equity_loop.simps trades_loop.simps)
qed

lemma run_backtest_trading:
  "run_backtest sample_runtime trading_engine (sample_request sample_candles ''rsi'') =
     ([Call_RSI_run [(1000, Fin 50), (2000, Fin 51)] 14,
       Call_rsi_below ([(1000, Fin 50), (2000, Fin 51)], 14) 30,
       Call_rsi_above ([(1000, Fin 50), (2000, Fin 51)], 14) 70,
       Call_from_signals [(1000, Fin 50), (2000, Fin 51)] [False, False] [False, False]
         (Fin 10000) (Fin (1/1000)) (Fin (1/50)) (Fin (1/25))],
      Inr (setitem sample_report ''execution_time'' (JFloat (Fin 2))))"
proof -
  have "run_rsi_strategy trading_engine sample_df (default_params ''rsi'') =
     ([Call_RSI_run [(1000, Fin 50), (2000, Fin 51)] 14,
       Call_rsi_below ([(1000, Fin 50), (2000, Fin 51)], 14) 30,
       Call_rsi_above ([(1000, Fin 50), (2000, Fin 51)], 14) 70,
       Call_from_signals [(1000, Fin 50), (2000, Fin 51)] [False, False] [False, False]
         (Fin 10000) (Fin (1/1000)) (Fin (1/50)) (Fin (1/25))],
      Inr sample_report)"
    by (simp add: run_rsi_strategy_eq close_col_sample Let_def idle_engine_def
        trading_engine_def default_params_def report_sample)
  then show ?thesis
    by (simp add: run_backtest_def dispatch_eq sample_request_sel make_df_sample
        sample_runtime_sel)
qed

subsection \<open>The statistics of the response\<close>

lemma f_div_guarded: "b \<noteq> Fin 0 \<Longrightarrow> f_div a b \<noteq> Inl ZeroDivisionError"
  by (cases a; cases b) auto

lemma equity_loop_no_division: "equity_loop df i vs \<noteq> Inl ZeroDivisionError"
  by (induction vs arbitrary: i) (auto simp: bindE_Inl py_index_def)

lemma trade_entry_no_division: "trade_entry df trade \<noteq> Inl ZeroDivisionError"
  by (auto simp: trade_entry_def bindE_Inl py_index_def split: if_splits)

lemma trades_loop_no_division: "trades_loop df ts \<noteq> Inl ZeroDivisionError"
  by (induction ts) (auto simp: bindE_Inl trade_entry_no_division)

lemma getitem_no_division: "getitem m k \<noteq> Inl ZeroDivisionError"
  by (simp add: getitem_def split: option.splits)

lemma win_rate_no_division:
  "(if 0 < w + l then int_truediv (int w) (int (w + l)) else Inr (Fin 0))
     \<noteq> Inl ZeroDivisionError"
proof (cases "0 < w + l")
  case True
  then have "int (w + l) \<noteq> 0" by linarith
  then show ?thesis using True by (simp add: int_truediv_def del: of_nat_add)
next
  case False
  then show ?thesis by simp
qed

lemma profit_factor_division:
  assumes "profit_factor_of t = Inl ZeroDivisionError"
  shows "arr_sum (win_pnl t) = Inl ZeroDivisionError \<or>
         arr_sum (lose_pnl t) = Inl ZeroDivisionError"
  using assms f_div_guarded
  by (auto simp: profit_factor_of_def bindE_Inl split: if_splits)

lemma report_division:
  assumes "report df pf = Inl ZeroDivisionError"
  shows "Inl ZeroDivisionError \<in>
     set [arr_mean (win_pnl (trades pf)), arr_max (win_pnl (trades pf)),
          arr_sum (win_pnl (trades pf)), arr_mean (lose_pnl (trades pf)),
          arr_min (lose_pnl (trades pf)), arr_sum (lose_pnl (trades pf))]"
proof -
  note nd = equity_loop_no_division trades_loop_no_division getitem_no_division
    win_rate_no_division
  from assms [unfolded report_def Let_def bindE_Inl]
  have "(if 0 < win_count (trades pf) then arr_mean (win_pnl (trades pf)) else Inr (Fin 0))
          = Inl ZeroDivisionError
      \<or> (if 0 < lose_count (trades pf) then arr_mean (lose_pnl (trades pf)) else Inr (Fin 0))
          = Inl ZeroDivisionError
      \<or> (if 0 < win_count (trades pf) then arr_max (win_pnl (trades pf)) else Inr (Fin 0))
          = Inl ZeroDivisionError
      \<or> (if 0 < lose_count (trades pf) then arr_min (lose_pnl (trades pf)) else Inr (Fin 0))
          = Inl ZeroDivisionError
      \<or> profit_factor_of (trades pf) = Inl ZeroDivisionError"
    using nd by blast
  then show ?thesis
    using profit_factor_division [of "trades pf"]
    by (auto split: if_splits)
qed

lemma report_statistics:
  assumes "report df pf = Inr res"
  shows "\<exists>wr.
     map_of res ''winning_trades'' = Some (JInt (int (win_count (trades pf)))) \<and>
     map_of res ''losing_trades'' = Some (JInt (int (lose_count (trades pf)))) \<and>
     map_of res ''total_trades'' =
       Some (JInt (int (win_count (trades pf)) + int (lose_count (trades pf)))) \<and>
     map_of res ''win_rate'' = Some (JFloat (Fin wr)) \<and> 0 \<le> wr \<and> wr \<le> 100 \<and>
     (win_count (trades pf) + lose_count (trades pf) = 0 \<longrightarrow>
        map_of res ''win_rate'' = Some (JFloat (Fin 0)) \<and>
        map_of res ''avg_win'' = Some (JFloat (Fin 0)) \<and>
        map_of res ''avg_loss'' = Some (JFloat (Fin 0)) \<and>
        map_of res ''largest_win'' = Some (JFloat (Fin 0)) \<and>
        map_of res ''largest_loss'' = Some (JFloat (Fin 0))) \<and>
     (arr_sum (lose_pnl (trades pf)) = Inr (Fin 0) \<longrightarrow>
        map_of res ''profit_factor'' = Some (JFloat PInf))"
proof -
  let ?w = "win_count (trades pf)" and ?l = "lose_count (trades pf)"
  from assms [unfolded report_Inr] obtain ecs tls wr aw al lw ll pfa tr trp sr md mdp where
    wr: "(if 0 < ?w + ?l then int_truediv (int ?w) (int (?w + ?l)) else Inr (Fin 0)) = Inr wr"
    and aw: "(if 0 < ?w then arr_mean (win_pnl (trades pf)) else Inr (Fin 0)) = Inr aw"
    and al: "(if 0 < ?l then arr_mean (lose_pnl (trades pf)) else Inr (Fin 0)) = Inr al"
    and lw: "(if 0 < ?w then arr_max (win_pnl (trades pf)) else Inr (Fin 0)) = Inr lw"
    and ll: "(if 0 < ?l then arr_min (lose_pnl (trades pf)) else Inr (Fin 0)) = Inr ll"
    and pfa: "profit_factor_of (trades pf) = Inr pfa"
    and res: "res = [(''total_return'', JFloat tr),
           (''total_return_pct'', JFloat trp),
           (''sharpe_ratio'', JFloat sr),
           (''max_drawdown'', JFloat md),
           (''max_drawdown_pct'', JFloat mdp),
           (''win_rate'', JFloat (f_mul wr (Fin 100))),
           (''profit_factor'', JFloat pfa),
           (''total_trades'', JInt (int (?w + ?l))),
           (''winning_trades'', JInt (int ?w)),
           (''losing_trades'', JInt (int ?l)),
           (''avg_win'', JFloat aw),
           (''avg_loss'', JFloat al),
           (''largest_win'', JFloat lw),
           (''largest_loss'', JFloat ll),
           (''equity_curve'', JList ecs),
           (''trades'', JList tls),
           (''execution_time'', JInt 0)]"
    by blast
  have z: "f_mul (Fin 0) (Fin 100) = Fin 0"
    by (simp add: to_float_eval)
  have "\<exists>p. f_mul wr (Fin 100) = Fin p \<and> 0 \<le> p \<and> p \<le> 100"
  proof (cases "0 < ?w + ?l")
    case True
    from win_rate_percent [OF True] wr True show ?thesis by auto
  next
    case False
    with wr have "wr = Fin 0" by simp
    with z show ?thesis by simp
  qed
  then obtain p where p: "f_mul wr (Fin 100) = Fin p" "0 \<le> p" "p \<le> 100"
    by blast
  have zero: "?w + ?l = 0 \<longrightarrow>
      f_mul wr (Fin 100) = Fin 0 \<and> aw = Fin 0 \<and> al = Fin 0 \<and> lw = Fin 0 \<and> ll = Fin 0"
    using wr aw al lw ll z by auto
  have inf: "arr_sum (lose_pnl (trades pf)) = Inr (Fin 0) \<longrightarrow> pfa = PInf"
    using pfa by (auto simp: profit_factor_of_def bindE_simps)
  show ?thesis
    using p zero inf unfolding res by simp
qed

lemma report_zero_trades:
  assumes "win_count (trades pf) = 0" and "lose_count (trades pf) = 0"
    and "arr_sum (lose_pnl (trades pf)) = Inr (Fin 0)"
    and "equity_loop df 0 (equity pf) = Inr ecs"
    and "trades_loop df (records_arr (trades pf)) = Inr tls"
    and "\<forall>k \<in> set [''Total Return'', ''Total Return [%]'', ''Sharpe Ratio'', ''Max Drawdown'',
           ''Max Drawdown [%]'']. stats pf k \<noteq> None"
  shows "\<exists>res. report df pf = Inr res"
proof -
  from assms(6) obtain tr trp sr md mdp where
    "getitem (stats pf) ''Total Return'' = Inr tr"
    "getitem (stats pf) ''Total Return [%]'' = Inr trp"
    "getitem (stats pf) ''Sharpe Ratio'' = Inr sr"
    "getitem (stats pf) ''Max Drawdown'' = Inr md"
    "getitem (stats pf) ''Max Drawdown [%]'' = Inr mdp"
    by (auto simp: getitem_def)
  with assms(1-5) show ?thesis
    by (simp add: report_def Let_def bindE_simps profit_factor_of_def)
qed

text \<open>
  Claim C9. In a successful response the number of trades is the sum of the winning and
  the losing ones, which are the counts of the portfolio that the engine returned, and
  the win rate is a finite number between 0 and 100. Without closed trades the win rate,
  the two averages and the two extremes are 0, and with a zero sum of the losing profits
  the profit factor is positive infinity. The code after the simulation raises
  \<^verbatim>\<open>ZeroDivisionError\<close> only when one of the six reductions of the engine does; without
  trades and with a zero losing sum, none of them is needed for the report to be built.
\<close>

theorem statistics_consistent_and_guarded:
  "(\<forall>cs res. run_backtest rt eng request = (cs, Inr res) \<longrightarrow>
      (\<exists>df pf en ex wr.
         make_df (candles request) = Inr df \<and>
         from_signals eng (close_col df) en ex
           (initial_capital (strategy_params request)) (commission_pct (strategy_params request))
           (stop_loss_pct (strategy_params request)) (take_profit_pct (strategy_params request))
           = Inr pf \<and>
         map_of res ''winning_trades'' = Some (JInt (int (win_count (trades pf)))) \<and>
         map_of res ''losing_trades'' = Some (JInt (int (lose_count (trades pf)))) \<and>
         map_of res ''total_trades'' =
           Some (JInt (int (win_count (trades pf)) + int (lose_count (trades pf)))) \<and>
         map_of res ''win_rate'' = Some (JFloat (Fin wr)) \<and> 0 \<le> wr \<and> wr \<le> 100 \<and>
         (win_count (trades pf) + lose_count (trades pf) = 0 \<longrightarrow>
            map_of res ''win_rate'' = Some (JFloat (Fin 0)) \<and>
            map_of res ''avg_win'' = Some (JFloat (Fin 0)) \<and>
            map_of res ''avg_loss'' = Some (JFloat (Fin 0)) \<and>
            map_of res ''largest_win'' = Some (JFloat (Fin 0)) \<and>
            map_of res ''largest_loss'' = Some (JFloat (Fin 0))) \<and>
         (arr_sum (lose_pnl (trades pf)) = Inr (Fin 0) \<longrightarrow>
            map_of res ''profit_factor'' = Some (JFloat PInf))))
   \<and> (\<forall>df pf. report df pf = Inl ZeroDivisionError \<longrightarrow>
        Inl ZeroDivisionError \<in>
          set [arr_mean (win_pnl (trades pf)), arr_max (win_pnl (trades pf)),
               arr_sum (win_pnl (trades pf)), arr_mean (lose_pnl (trades pf)),
               arr_min (lose_pnl (trades pf)), arr_sum (lose_pnl (trades pf))])
   \<and> (\<forall>df pf ecs tls.
        win_count (trades pf) = 0 \<and> lose_count (trades pf) = 0 \<and>
        arr_sum (lose_pnl (trades pf)) = Inr (Fin 0) \<and>
        equity_loop df 0 (equity pf) = Inr ecs \<and>
        trades_loop df (records_arr (trades pf)) = Inr tls \<and>
        (\<forall>k \<in> set [''Total Return'', ''Total Return [%]'', ''Sharpe Ratio'', ''Max Drawdown'',
           ''Max Drawdown [%]'']. stats pf k \<noteq> None) \<longrightarrow>
        (\<exists>res. report df pf = Inr res))"
proof (intro conjI allI impI)
  fix cs res
  assume "run_backtest rt eng request = (cs, Inr res)"
  then obtain res0 where d: "dispatch eng request = (cs, Inr res0)"
    and r: "res = setitem res0 ''execution_time''
                (JFloat (to_float (time_end rt - time_start rt)))"
    by (auto simp: run_backtest_Inr)
  from dispatch_Inr [OF d] obtain df pf en ex where
    m: "make_df (candles request) = Inr df"
    and f: "from_signals eng (close_col df) en ex
       (initial_capital (strategy_params request)) (commission_pct (strategy_params request))
       (stop_loss_pct (strategy_params request)) (take_profit_pct (strategy_params request))
       = Inr pf"
    and rep: "report df pf = Inr res0"
    by blast
  from report_statistics [OF rep] m f
  show "\<exists>df pf en ex wr.
         make_df (candles request) = Inr df \<and>
         from_signals eng (close_col df) en ex
           (initial_capital (strategy_params request)) (commission_pct (strategy_params request))
           (stop_loss_pct (strategy_params request)) (take_profit_pct (strategy_params request))
           = Inr pf \<and>
         map_of res ''winning_trades'' = Some (JInt (int (win_count (trades pf)))) \<and>
         map_of res ''losing_trades'' = Some (JInt (int (lose_count (trades pf)))) \<and>
         map_of res ''total_trades'' =
           Some (JInt (int (win_count (trades pf)) + int (lose_count (trades pf)))) \<and>
         map_of res ''win_rate'' = Some (JFloat (Fin wr)) \<and> 0 \<le> wr \<and> wr \<le> 100 \<and>
         (win_count (trades pf) + lose_count (trades pf) = 0 \<longrightarrow>
            map_of res ''win_rate'' = Some (JFloat (Fin 0)) \<and>
            map_of res ''avg_win'' = Some (JFloat (Fin 0)) \<and>
            map_of res ''avg_loss'' = Some (JFloat (Fin 0)) \<and>
            map_of res ''largest_win'' = Some (JFloat (Fin 0)) \<and>
            map_of res ''largest_loss'' = Some (JFloat (Fin 0))) \<and>
         (arr_sum (lose_pnl (trades pf)) = Inr (Fin 0) \<longrightarrow>
            map_of res ''profit_factor'' = Some (JFloat PInf))"
    unfolding r map_of_setitem by (intro exI [of _ df] exI [of _ pf] exI [of _ en] exI [of _ ex]) simp
next
  fix df pf
  assume "report df pf = Inl ZeroDivisionError"
  then show "Inl ZeroDivisionError \<in>
          set [arr_mean (win_pnl (trades pf)), arr_max (win_pnl (trades pf)),
               arr_sum (win_pnl (trades pf)), arr_mean (lose_pnl (trades pf)),
               arr_min (lose_pnl (trades pf)), arr_sum (lose_pnl (trades pf))]"
    by (rule report_division)
next
  fix df and pf :: Portfolio and ecs tls
  assume "win_count (trades pf) = 0 \<and> lose_count (trades pf) = 0 \<and>
        arr_sum (lose_pnl (trades pf)) = Inr (Fin 0) \<and>
        equity_loop df 0 (equity pf) = Inr ecs \<and>
        trades_loop df (records_arr (trades pf)) = Inr tls \<and>
        (\<forall>k \<in> set [''Total Return'', ''Total Return [%]'', ''Sharpe Ratio'', ''Max Drawdown'',
           ''Max Drawdown [%]'']. stats pf k \<noteq> None)"
  then show "\<exists>res. report df pf = Inr res"
    using report_zero_trades [of pf df ecs tls] by blast
qed

theorem statistics_consistent_and_guarded_witness:
  "\<exists>cs res.
     run_backtest sample_runtime trading_engine (sample_request sample_candles ''rsi'')
       = (cs, Inr res) \<and>
     map_of res ''winning_trades'' = Some (JInt 1) \<and>
     map_of res ''losing_trades'' = Some (JInt 3) \<and>
     map_of res ''total_trades'' = Some (JInt 4) \<and>
     (\<exists>wr. map_of res ''win_rate'' = Some (JFloat (Fin wr)) \<and> 0 \<le> wr \<and> wr \<le> 100)"
proof -
  let ?res = "setitem sample_report ''execution_time'' (JFloat (Fin 2))"
  from statistics_consistent_and_guarded
    [of sample_runtime trading_engine "sample_request sample_candles ''rsi''",
     THEN conjunct1, rule_format, OF run_backtest_trading]
  obtain df pf en ex wr where
    f: "from_signals trading_engine (close_col df) en ex
          (initial_capital (strategy_params (sample_request sample_candles ''rsi'')))
          (commission_pct (strategy_params (sample_request sample_candles ''rsi'')))
          (stop_loss_pct (strategy_params (sample_request sample_candles ''rsi'')))
          (take_profit_pct (strategy_params (sample_request sample_candles ''rsi''))) = Inr pf"
    and w: "map_of ?res ''winning_trades'' = Some (JInt (int (win_count (trades pf))))"
    and l: "map_of ?res ''losing_trades'' = Some (JInt (int (lose_count (trades pf))))"
    and t: "map_of ?res ''total_trades'' =
           Some (JInt (int (win_count (trades pf)) + int (lose_count (trades pf))))"
    and r: "map_of ?res ''win_rate'' = Some (JFloat (Fin wr))" "0 \<le> wr" "wr \<le> 100"
    by blast
  from f have pf: "pf = sample_portfolio"
    by (simp add: trading_engine_def idle_engine_def)
  have c: "win_count (trades sample_portfolio) = 1" "lose_count (trades sample_portfolio) = 3"
    by (simp_all add: sample_portfolio_def sample_trades_def)
  from w l t r show ?thesis
    unfolding pf c using run_backtest_trading by auto
qed

text \<open>
  Claim C1, as the code has it. The trades, their counts and the reductions of the two
  arrays of profit and loss come from the engine; the statistics of the response are put
  together by the code. In a successful response, with \<open>w\<close> winning and \<open>l\<close> losing trades,
  the win rate is the rounded quotient \<open>w / (w + l)\<close> times 100, and 0 without trades; the
  profit factor is the absolute value of the quotient of the two sums, and positive
  infinity when the losing sum is 0; the average and the largest win are the mean and the
  maximum of the winning array when \<open>w\<close> is positive, the average and the largest loss the
  mean and the minimum of the losing array when \<open>l\<close> is positive, and 0 otherwise.
\<close>

theorem statistics_assembled_by_handler:
  assumes "run_backtest rt eng request = (cs, Inr res)"
  shows "\<exists>df pf en ex t w l profit_factor avg_win avg_loss largest_win largest_loss.
     make_df (candles request) = Inr df \<and>
     from_signals eng (close_col df) en ex
       (initial_capital (strategy_params request)) (commission_pct (strategy_params request))
       (stop_loss_pct (strategy_params request)) (take_profit_pct (strategy_params request))
       = Inr pf \<and>
     t = trades pf \<and> w = win_count t \<and> l = lose_count t \<and>
     map_of res ''win_rate'' =
       Some (JFloat (if 0 < w + l then f_mul (to_float (real w / real (w + l))) (Fin 100)
                     else Fin 0)) \<and>
     map_of res ''profit_factor'' = Some (JFloat profit_factor) \<and>
     (\<exists>lose_sum. arr_sum (lose_pnl t) = Inr lose_sum \<and>
        (if lose_sum = Fin 0 then profit_factor = PInf
         else \<exists>win_sum q. arr_sum (win_pnl t) = Inr win_sum \<and>
                f_div win_sum lose_sum = Inr q \<and> profit_factor = f_abs q)) \<and>
     map_of res ''avg_win'' = Some (JFloat avg_win) \<and>
     (if 0 < w then arr_mean (win_pnl t) else Inr (Fin 0)) = Inr avg_win \<and>
     map_of res ''avg_loss'' = Some (JFloat avg_loss) \<and>
     (if 0 < l then arr_mean (lose_pnl t) else Inr (Fin 0)) = Inr avg_loss \<and>
     map_of res ''largest_win'' = Some (JFloat largest_win) \<and>
     (if 0 < w then arr_max (win_pnl t) else Inr (Fin 0)) = Inr largest_win \<and>
     map_of res ''largest_loss'' = Some (JFloat largest_loss) \<and>
     (if 0 < l then arr_min (lose_pnl t) else Inr (Fin 0)) = Inr largest_loss"
proof -
  from assms obtain res0 where d: "dispatch eng request = (cs, Inr res0)"
    and r: "res = setitem res0 ''execution_time''
                (JFloat (to_float (time_end rt - time_start rt)))"
    by (auto simp: run_backtest_Inr)
  from dispatch_Inr [OF d] obtain df pf en ex where
    m: "make_df (candles request) = Inr df"
    and f: "from_signals eng (close_col df) en ex
       (initial_capital (strategy_params request)) (commission_pct (strategy_params request))
       (stop_loss_pct (strategy_params request)) (take_profit_pct (strategy_params request))
       = Inr pf"
    and rep: "report df pf = Inr res0"
    by blast
  let ?t = "trades pf"
  let ?w = "win_count ?t" and ?l = "lose_count ?t"
  from rep [unfolded report_Inr] obtain ecs tls wr aw al lw ll pfa tr trp sr md mdp where
    wr: "(if 0 < ?w + ?l then int_truediv (int ?w) (int (?w + ?l)) else Inr (Fin 0)) = Inr wr"
    and aw: "(if 0 < ?w then arr_mean (win_pnl ?t) else Inr (Fin 0)) = Inr aw"
    and al: "(if 0 < ?l then arr_mean (lose_pnl ?t) else Inr (Fin 0)) = Inr al"
    and lw: "(if 0 < ?w then arr_max (win_pnl ?t) else Inr (Fin 0)) = Inr lw"
    and ll: "(if 0 < ?l then arr_min (lose_pnl ?t) else Inr (Fin 0)) = Inr ll"
    and pfa: "profit_factor_of ?t = Inr pfa"
    and res0: "res0 = [(''total_return'', JFloat tr),
           (''total_return_pct'', JFloat trp),
           (''sharpe_ratio'', JFloat sr),
           (''max_drawdown'', JFloat md),
           (''max_drawdown_pct'', JFloat mdp),
           (''win_rate'', JFloat (f_mul wr (Fin 100))),
           (''profit_factor'', JFloat pfa),
           (''total_trades'', JInt (int (?w + ?l))),
           (''winning_trades'', JInt (int ?w)),
           (''losing_trades'', JInt (int ?l)),
           (''avg_win'', JFloat aw),
           (''avg_loss'', JFloat al),
           (''largest_win'', JFloat lw),
           (''largest_loss'', JFloat ll),
           (''equity_curve'', JList ecs),
           (''trades'', JList tls),
           (''execution_time'', JInt 0)]"
    by blast
  have rate: "f_mul wr (Fin 100) =
      (if 0 < ?w + ?l then f_mul (to_float (real ?w / real (?w + ?l))) (Fin 100) else Fin 0)"
  proof (cases "0 < ?w + ?l")
    case True
    then have nz: "int (?w + ?l) \<noteq> 0" by linarith
    from wr True have "int_truediv (int ?w) (int (?w + ?l)) = Inr wr"
      by (simp only: if_True)
    moreover have "int_truediv (int ?w) (int (?w + ?l)) =
        Inr (to_float (real ?w / real (?w + ?l)))"
      unfolding int_truediv_def using nz by (simp only: if_False of_int_of_nat_eq)
    ultimately have "wr = to_float (real ?w / real (?w + ?l))"
      by (simp only: sum.inject)
    then show ?thesis by (simp only: True if_True)
  next
    case False
    with wr have "wr = Fin 0" by simp
    with False show ?thesis by (simp add: to_float_eval)
  qed
  have factor: "\<exists>lose_sum. arr_sum (lose_pnl ?t) = Inr lose_sum \<and>
        (if lose_sum = Fin 0 then pfa = PInf
         else \<exists>win_sum q. arr_sum (win_pnl ?t) = Inr win_sum \<and>
                f_div win_sum lose_sum = Inr q \<and> pfa = f_abs q)"
    using pfa by (auto simp: profit_factor_of_def bindE_Inr split: if_splits)
  have fields: "map_of res ''win_rate'' = Some (JFloat (f_mul wr (Fin 100)))"
    "map_of res ''profit_factor'' = Some (JFloat pfa)"
    "map_of res ''avg_win'' = Some (JFloat aw)"
    "map_of res ''avg_loss'' = Some (JFloat al)"
    "map_of res ''largest_win'' = Some (JFloat lw)"
    "map_of res ''largest_loss'' = Some (JFloat ll)"
    unfolding r res0 by (simp_all add: map_of_setitem)
  show ?thesis
    using m f fields(2-) fields(1) [unfolded rate] factor aw al lw ll by blast
qed

theorem statistics_assembled_by_handler_witness:
  "\<exists>cs res.
     run_backtest sample_runtime trading_engine (sample_request sample_candles ''rsi'')
       = (cs, Inr res) \<and>
     map_of res ''win_rate'' = Some (JFloat (Fin 25)) \<and>
     map_of res ''profit_factor'' = Some (JFloat (Fin 2)) \<and>
     map_of res ''avg_loss'' = Some (JFloat (Fin (- 2))) \<and>
     map_of res ''largest_win'' = Some (JFloat (Fin 12))"
proof -
  let ?res = "setitem sample_report ''execution_time'' (JFloat (Fin 2))"
  from statistics_assembled_by_handler [OF run_backtest_trading]
  obtain df pf en ex t w l profit_factor avg_win avg_loss largest_win largest_loss where
    f: "from_signals trading_engine (close_col df) en ex
          (initial_capital (strategy_params (sample_request sample_candles ''rsi'')))
          (commission_pct (strategy_params (sample_request sample_candles ''rsi'')))
          (stop_loss_pct (strategy_params (sample_request sample_candles ''rsi'')))
          (take_profit_pct (strategy_params (sample_request sample_candles ''rsi''))) = Inr pf"
    and t: "t = trades pf" "w = win_count t" "l = lose_count t"
    and rate: "map_of ?res ''win_rate'' =
       Some (JFloat (if 0 < w + l then f_mul (to_float (real w / real (w + l))) (Fin 100)
                     else Fin 0))"
    and pfm: "map_of ?res ''profit_factor'' = Some (JFloat profit_factor)"
    and pfv: "\<exists>lose_sum. arr_sum (lose_pnl t) = Inr lose_sum \<and>
        (if lose_sum = Fin 0 then profit_factor = PInf
         else \<exists>win_sum q. arr_sum (win_pnl t) = Inr win_sum \<and>
                f_div win_sum lose_sum = Inr q \<and> profit_factor = f_abs q)"
    and al: "map_of ?res ''avg_loss'' = Some (JFloat avg_loss)"
      "(if 0 < l then arr_mean (lose_pnl t) else Inr (Fin 0)) = Inr avg_loss"
    and lw: "map_of ?res ''largest_win'' = Some (JFloat largest_win)"
      "(if 0 < w then arr_max (win_pnl t) else Inr (Fin 0)) = Inr largest_win"
    by blast
  from f have pf: "pf = sample_portfolio"
    by (simp add: trading_engine_def idle_engine_def)
  have tv: "t = sample_trades" "w = 1" "l = 3"
    unfolding t pf by (simp_all add: sample_portfolio_def sample_trades_def)
  have "map_of ?res ''win_rate'' = Some (JFloat (Fin 25))"
    using rate unfolding tv by (simp add: to_float_eval)
  moreover have "profit_factor = Fin 2"
    using pfv unfolding tv by (auto simp: sample_trades_def to_float_neg2)
  moreover have "avg_loss = Fin (- 2)"
    using al(2) unfolding tv by (simp add: sample_trades_def)
  moreover have "largest_win = Fin 12"
    using lw(2) unfolding tv by (simp add: sample_trades_def)
  ultimately show ?thesis
    using pfm al(1) lw(1) run_backtest_trading by simp
qed

text \<open>
  With one winning and three losing trades the response says a win rate of 25 and a
  profit factor of 2, and neither number is among the values that the engine returned;
  without trades the average win is 0 where the engine's mean of the empty array is
  not a number.
\<close>

theorem statistics_not_from_engine_counterexample:
  "report sample_df sample_portfolio = Inr sample_report
   \<and> map_of sample_report ''win_rate'' = Some (JFloat (Fin 25))
   \<and> Inr (Fin 25) \<notin> set (engine_statistics sample_portfolio)
   \<and> map_of sample_report ''profit_factor'' = Some (JFloat (Fin 2))
   \<and> Inr (Fin 2) \<notin> set (engine_statistics sample_portfolio)
   \<and> report sample_df \<lparr>stats = flat_stats, trades = no_trades, equity = [Fin 10000, Fin 10000]\<rparr>
       = Inr idle_result
   \<and> map_of idle_result ''avg_win'' = Some (JFloat (Fin 0))
   \<and> arr_mean (win_pnl no_trades) = Inr NaN"
proof (intro conjI)
  show "report sample_df sample_portfolio = Inr sample_report"
    by (rule report_sample)
  show "map_of sample_report ''win_rate'' = Some (JFloat (Fin 25))"
    by (simp add: sample_report_def)
  show "map_of sample_report ''profit_factor'' = Some (JFloat (Fin 2))"
    by (simp add: sample_report_def)
  show "Inr (Fin 25) \<notin> set (engine_statistics sample_portfolio)"
    by (simp add: engine_statistics_def sample_portfolio_def sample_trades_def flat_stats_def
        getitem_def)
  show "Inr (Fin 2) \<notin> set (engine_statistics sample_portfolio)"
    by (simp add: engine_statistics_def sample_portfolio_def sample_trades_def flat_stats_def
        getitem_def)
  show "report sample_df \<lparr>stats = flat_stats, trades = no_trades, equity = [Fin 10000, Fin 10000]\<rparr>
       = Inr idle_result"
    by (rule report_idle)
  show "map_of idle_result ''avg_win'' = Some (JFloat (Fin 0))"
    by (simp add: idle_result_def)
  show "arr_mean (win_pnl no_trades) = Inr NaN"
    by (simp add: no_trades_def)
qed

end
